theory Spec2Isabelle
  imports Complex_Main "HOL-Library.AList" "HOL-Library.Multiset"
begin

section \<open>Values exchanged with the external libraries\<close>

text \<open>
  \<^verbatim>\<open>diffuzers/inpainting.py\<close> is glue around diffusers, torch, PIL and streamlit. The
  objects of those libraries are modelled by the attributes the module reads or writes;
  what a library computes is either a parameter of the model (record \<open>env\<close> below) or
  recorded symbolically. Exceptions are values of type \<open>exn\<close>.
\<close>

datatype exn =
    KeyError "string option"
  | TypeError
  | IndexError
  | ValueError
  | Raised string

text \<open>Python floats are only passed through by this module, never computed with.\<close>

type_synonym pyfloat = real

datatype resample = LANCZOS

text \<open>
  The pixel content of a PIL image, as the history of the operations that made it.
\<close>

datatype pixels =
    Decoded nat
  | Channel nat nat
  | Converted string pixels
  | Resized "int \<times> int" "resample option" pixels
  | Generated nat

text \<open>\<open>im_size\<close> is PIL's \<^verbatim>\<open>Image.size\<close>: the pair (width, height).\<close>

record image =
  im_size :: "int \<times> int"
  im_mode :: string
  im_data :: pixels

definition convert :: "string \<Rightarrow> image \<Rightarrow> image" where
  "convert m im = im\<lparr>im_mode := m, im_data := Converted m (im_data im)\<rparr>"

text \<open>\<^verbatim>\<open>Image.resize(size, resample)\<close>: \<open>size\<close> is the requested (width, height).\<close>

definition resize :: "int \<times> int \<Rightarrow> resample option \<Rightarrow> image \<Rightarrow> image" where
  "resize sz r im = im\<lparr>im_size := sz, im_data := Resized sz r (im_data im)\<rparr>"

text \<open>A numpy array of shape (rows, cols, channels) over an unread buffer.\<close>

record ndarray =
  rows :: int
  cols :: int
  channels :: int
  buffer :: nat

text \<open>
  \<^verbatim>\<open>Image.fromarray(a[:, :, k])\<close>: the slice fails when the last axis has no index \<open>k\<close>;
  a two-dimensional array of shape (rows, cols) becomes an image of size (cols, rows).
\<close>

definition fromarray_channel :: "ndarray \<Rightarrow> int \<Rightarrow> exn + image" where
  "fromarray_channel a k =
     (if - channels a \<le> k \<and> k < channels a
      then Inr \<lparr>im_size = (cols a, rows a), im_mode = ''L'',
                im_data = Channel (buffer a) (nat (if k < 0 then channels a + k else k))\<rparr>
      else Inl IndexError)"

datatype dtype = Float16 | Float32

datatype safety_checker = DefaultSafetyChecker | NoSafetyChecker

text \<open>A scheduler class: its \<^verbatim>\<open>__name__\<close> and the identity of the class object.\<close>

datatype sched_class = SchedClass (cls_name: string) (cls_id: nat)

type_synonym config = "(string \<times> string) list"

record scheduler =
  sched_cls :: sched_class
  config :: config
  compatibles :: "sched_class list"

record pipeline =
  scheduler :: scheduler
  safety_checker :: safety_checker
  pipe_device :: "string option"
  attention_slicing :: bool

text \<open>
  \<open>DefaultGenerator seed\<close> is the result of \<^verbatim>\<open>torch.manual_seed(seed)\<close>;
  \<open>DeviceGenerator d seed\<close> that of \<^verbatim>\<open>torch.Generator(device=d).manual_seed(seed)\<close>.
\<close>

datatype generator =
    DefaultGenerator int
  | DeviceGenerator "string option" int

text \<open>
  The keyword arguments of a call of the pipeline. An argument the caller leaves out is
  \<open>None\<close>.
\<close>

record kwargs =
  kw_prompt :: string
  kw_negative_prompt :: "string option"
  kw_image :: image
  kw_mask_image :: image
  kw_num_inference_steps :: int
  kw_guidance_scale :: "pyfloat option"
  kw_num_images_per_prompt :: "int option"
  kw_generator :: "generator option"
  kw_height :: "int option"
  kw_width :: "int option"

datatype json = JStr string | JInt int | JFloat pyfloat | JNull

text \<open>
  The string \<^verbatim>\<open>json.dumps(d)\<close> of a dict \<open>d\<close>, an association list in insertion order,
  is written \<open>Dumps d\<close>: the characters are the library's, the record they carry is \<open>d\<close>.
\<close>

datatype json_text = Dumps "(string \<times> json) list"

text \<open>A \<^verbatim>\<open>PngInfo\<close>: its text chunks, in the order added.\<close>

type_synonym pnginfo = "(string \<times> json_text) list"

definition add_text :: "string \<Rightarrow> json_text \<Rightarrow> pnginfo \<Rightarrow> pnginfo" where
  "add_text k v info = info @ [(k, v)]"

type_synonym upload = nat

section \<open>Effects\<close>

text \<open>
  Every call that acts on the world outside the object is recorded, in order. A call of
  the pipeline is recorded with the state of the pipeline at that moment.
\<close>

datatype event =
    HttpGet string
  | LoggerInfo scheduler
  | TorchManualSeed int
  | PipelineCall pipeline kwargs
  | SaveImages "image list" string json_text "string option"
  | CudaEmptyCache
  | GcCollect
  | DisplayAndDownload "image list" pnginfo

text \<open>
  What the libraries answer. \<open>save_images\<close> and \<open>display_and_download_images\<close> belong
  to \<^verbatim>\<open>diffuzers.utils\<close>, which is not part of the file; they are calls whose arguments
  are recorded and whose only modelled outcome is whether they raise.
\<close>

record env =
  from_pretrained :: "string option \<Rightarrow> dtype \<Rightarrow> exn + pipeline"
  pipeline_to :: "pipeline \<Rightarrow> string option \<Rightarrow> exn option"
  from_config :: "sched_class \<Rightarrow> config \<Rightarrow> exn + scheduler"
  torch_generator :: "generator \<Rightarrow> exn option"
  pipeline_call :: "pipeline \<Rightarrow> kwargs \<Rightarrow> exn + image list"
  save_images :: "image list \<Rightarrow> string \<Rightarrow> json_text \<Rightarrow> string option \<Rightarrow> exn option"
  display_and_download_images :: "image list \<Rightarrow> pnginfo \<Rightarrow> exn option"
  requests_get :: "string \<Rightarrow> exn + upload"
  Image_open :: "upload \<Rightarrow> exn + image"

section \<open>The Inpainting object\<close>

text \<open>
  \<open>compatible_schedulers\<close> is a Python dict: an association list with distinct keys in
  insertion order. \<open>compatible_schedulers_list\<close> is the attribute
  \<^verbatim>\<open>_compatible_schedulers\<close>.
\<close>

record inpainting =
  model :: "string option"
  device :: "string option"
  output_path :: "string option"
  pipeline :: pipeline
  compatible_schedulers_list :: "sched_class list"
  scheduler_config :: config
  compatible_schedulers :: "(string \<times> sched_class) list"

record world =
  obj :: inpainting
  trace :: "event list"

text \<open>
  A method maps the world to its result, a value or the exception that left it, and
  the world it leaves behind: what was done before an exception stays done.
\<close>

type_synonym 'a py_method = "world \<Rightarrow> (exn + 'a) \<times> world"

definition emit :: "event \<Rightarrow> world \<Rightarrow> world" where
  "emit ev w = w\<lparr>trace := trace w @ [ev]\<rparr>"

text \<open>
  \<^verbatim>\<open>d[k]\<close> on a dict with string keys; the key \<open>None\<close> is Python's \<^verbatim>\<open>None\<close>, which is
  never a key of such a dict.
\<close>

definition getitem :: "(string \<times> 'v) list \<Rightarrow> string option \<Rightarrow> exn + 'v" where
  "getitem d k =
     (case k of
        None \<Rightarrow> Inl (KeyError None)
      | Some n \<Rightarrow> (case map_of d n of None \<Rightarrow> Inl (KeyError k) | Some v \<Rightarrow> Inr v))"

text \<open>\<^verbatim>\<open>str(x)\<close> of an \<^verbatim>\<open>Optional[str]\<close>, as an f-string formats it.\<close>

definition format_opt :: "string option \<Rightarrow> string" where
  "format_opt x = (case x of None \<Rightarrow> ''None'' | Some s \<Rightarrow> s)"

definition str_inpainting :: "inpainting \<Rightarrow> string" where
  "str_inpainting self =
     ''Inpainting(model='' @ format_opt (model self) @ '', device='' @ format_opt (device self)
       @ '', output_path='' @ format_opt (output_path self) @ '')''"

definition set_scheduler :: "env \<Rightarrow> string option \<Rightarrow> unit py_method" where
  "set_scheduler E scheduler_name w =
     (case getitem (compatible_schedulers (obj w)) scheduler_name of
        Inl e \<Rightarrow> (Inl e, w)
      | Inr cls \<Rightarrow>
          (case from_config E cls (scheduler_config (obj w)) of
             Inl e \<Rightarrow> (Inl e, w)
           | Inr sch \<Rightarrow>
               (Inr (), w\<lparr>obj := (obj w)\<lparr>pipeline := (pipeline (obj w))\<lparr>scheduler := sch\<rparr>\<rparr>\<rparr>)))"

text \<open>The parameters of \<^verbatim>\<open>generate_image\<close>; \<open>scheduler_name\<close> is its parameter \<^verbatim>\<open>scheduler\<close>.\<close>

record request =
  prompt :: string
  negative_prompt :: string
  image :: image
  mask :: image
  guidance_scale :: pyfloat
  scheduler_name :: "string option"
  steps :: int
  seed :: int
  height :: int
  width :: int
  num_images :: int

definition json_name :: "string option \<Rightarrow> json" where
  "json_name x = (case x of None \<Rightarrow> JNull | Some s \<Rightarrow> JStr s)"

definition metadata_dict :: "request \<Rightarrow> (string \<times> json) list" where
  "metadata_dict r =
     [(''prompt'', JStr (prompt r)),
      (''negative_prompt'', JStr (negative_prompt r)),
      (''guidance_scale'', JFloat (guidance_scale r)),
      (''scheduler'', json_name (scheduler_name r)),
      (''steps'', JInt (steps r)),
      (''seed'', JInt (seed r))]"

text \<open>Lines 72 to 76: the generator and the image count, by device.\<close>

definition choose_generator :: "string option \<Rightarrow> int \<Rightarrow> int \<Rightarrow> generator \<times> int" where
  "choose_generator dev sd n =
     (if dev = Some ''mps'' then (DefaultGenerator sd, 1)
      else (DeviceGenerator dev sd, n))"

definition seed_events :: "generator \<Rightarrow> event list" where
  "seed_events g = (case g of DefaultGenerator sd \<Rightarrow> [TorchManualSeed sd] | DeviceGenerator d sd \<Rightarrow> [])"

definition call_kwargs :: "request \<Rightarrow> generator \<Rightarrow> int \<Rightarrow> kwargs" where
  "call_kwargs r g n =
     \<lparr>kw_prompt = prompt r,
      kw_negative_prompt = Some (negative_prompt r),
      kw_image = image r,
      kw_mask_image = mask r,
      kw_num_inference_steps = steps r,
      kw_guidance_scale = Some (guidance_scale r),
      kw_num_images_per_prompt = Some n,
      kw_generator = Some g,
      kw_height = Some (height r),
      kw_width = Some (width r)\<rparr>"

definition generate_image :: "env \<Rightarrow> request \<Rightarrow> (image list \<times> pnginfo) py_method" where
  "generate_image E r w0 =
     (case set_scheduler E (scheduler_name r) w0 of
        (Inl e, w1) \<Rightarrow> (Inl e, w1)
      | (Inr u, w1) \<Rightarrow>
          (let w2 = emit (LoggerInfo (scheduler (pipeline (obj w1)))) w1;
               (gen, n) = choose_generator (device (obj w2)) (seed r) (num_images r)
           in case torch_generator E gen of
                Some e \<Rightarrow> (Inl e, w2)
              | None \<Rightarrow>
                  (let w3 = w2\<lparr>trace := trace w2 @ seed_events gen\<rparr>;
                       kw = call_kwargs r gen n;
                       w4 = emit (PipelineCall (pipeline (obj w3)) kw) w3
                   in case pipeline_call E (pipeline (obj w3)) kw of
                        Inl e \<Rightarrow> (Inl e, w4)
                      | Inr output_images \<Rightarrow>
                          (let metadata = Dumps (metadata_dict r);
                               metadata_png = add_text ''inpainting'' metadata [];
                               w5 = emit (SaveImages output_images ''inpainting'' metadata
                                            (output_path (obj w4))) w4
                           in case save_images E output_images ''inpainting'' metadata
                                     (output_path (obj w4)) of
                                Some e \<Rightarrow> (Inl e, w5)
                              | None \<Rightarrow>
                                  (Inr (output_images, metadata_png),
                                   emit GcCollect (emit CudaEmptyCache w5))))))"

section \<open>Construction\<close>

definition download_image :: "env \<Rightarrow> string \<Rightarrow> event list \<Rightarrow> (exn + image) \<times> event list" where
  "download_image E url tr =
     (let tr' = tr @ [HttpGet url]
      in case requests_get E url of
           Inl e \<Rightarrow> (Inl e, tr')
         | Inr content \<Rightarrow>
             (case Image_open E content of
                Inl e \<Rightarrow> (Inl e, tr')
              | Inr im \<Rightarrow> (Inr (convert ''RGB'' im), tr')))"

definition img_url :: string where
  "img_url = ''https://raw.githubusercontent.com/CompVis/latent-diffusion/main/data/inpainting_examples/overture-creations-5sI6fQgYIuo.png''"

definition mask_url :: string where
  "mask_url = ''https://raw.githubusercontent.com/CompVis/latent-diffusion/main/data/inpainting_examples/overture-creations-5sI6fQgYIuo_mask.png''"

text \<open>
  The dict comprehension \<^verbatim>\<open>{scheduler.__name__: scheduler for scheduler in ...}\<close>: a
  later class of the same name replaces the earlier one at the earlier one's place.
\<close>

definition dict_by_name :: "sched_class list \<Rightarrow> (string \<times> sched_class) list" where
  "dict_by_name cs = foldl (\<lambda>d c. AList.update (cls_name c) c d) [] cs"

definition warmup_kwargs :: "image \<Rightarrow> image \<Rightarrow> kwargs" where
  "warmup_kwargs init_image mask_image =
     \<lparr>kw_prompt = ''Face of a yellow cat, high resolution, sitting on a park bench'',
      kw_negative_prompt = None,
      kw_image = init_image,
      kw_mask_image = mask_image,
      kw_num_inference_steps = 2,
      kw_guidance_scale = None,
      kw_num_images_per_prompt = None,
      kw_generator = None,
      kw_height = None,
      kw_width = None\<rparr>"

text \<open>
  The dataclass constructor followed by \<^verbatim>\<open>__post_init__\<close>. The result is the new
  object, or the exception that prevented it.
\<close>

definition post_init ::
  "env \<Rightarrow> string option \<Rightarrow> string option \<Rightarrow> string option \<Rightarrow> event list
     \<Rightarrow> (exn + inpainting) \<times> event list" where
  "post_init E mdl dev out tr =
     (case from_pretrained E mdl (if dev = Some ''cuda'' then Float16 else Float32) of
        Inl e \<Rightarrow> (Inl e, tr)
      | Inr p0 \<Rightarrow>
          (case pipeline_to E p0 dev of
             Some e \<Rightarrow> (Inl e, tr)
           | None \<Rightarrow>
               (let p1 = p0\<lparr>pipe_device := dev, safety_checker := NoSafetyChecker\<rparr>;
                    self = \<lparr>model = mdl, device = dev, output_path = out, pipeline = p1,
                            compatible_schedulers_list = compatibles (scheduler p1),
                            scheduler_config = config (scheduler p1),
                            compatible_schedulers = dict_by_name (compatibles (scheduler p1))\<rparr>
                in if dev = Some ''mps''
                   then
                     (let self' = self\<lparr>pipeline := p1\<lparr>attention_slicing := True\<rparr>\<rparr>
                      in case download_image E img_url tr of
                           (Inl e, tr1) \<Rightarrow> (Inl e, tr1)
                         | (Inr im, tr1) \<Rightarrow>
                             (let init_image = resize (512, 512) None im
                              in case download_image E mask_url tr1 of
                                   (Inl e, tr2) \<Rightarrow> (Inl e, tr2)
                                 | (Inr mk, tr2) \<Rightarrow>
                                     (let mask_image = resize (512, 512) None mk;
                                          kw = warmup_kwargs init_image mask_image;
                                          tr3 = tr2 @ [PipelineCall (pipeline self') kw]
                                      in case pipeline_call E (pipeline self') kw of
                                           Inl e \<Rightarrow> (Inl e, tr3)
                                         | Inr u \<Rightarrow> (Inr self', tr3))))
                   else (Inr self, tr))))"

section \<open>The user interface\<close>

text \<open>
  The widgets of the page are inputs: one field per widget, named by the widget's key,
  holding what the widget returns in this run of the script.
\<close>

type_synonym canvas_object = nat

record canvas_result =
  image_data :: "ndarray option"
  json_data :: "(string \<times> canvas_object list) list option"

record session =
  inpainting_prompt :: string
  inpainting_negative_prompt :: string
  inpainting_uploaded_file :: "upload option"
  inpainting_scheduler :: nat
  inpainting_guidance_scale :: pyfloat
  inpainting_num_images :: int
  inpainting_steps :: int
  inpainting_seed :: int
  inpainting_drawing_mode :: string
  inpainting_stroke_width :: int
  inpainting_canvas :: canvas_result
  inpainting_submit :: bool

text \<open>\<^verbatim>\<open>list.index\<close>, \<^verbatim>\<open>list.pop\<close> and \<^verbatim>\<open>list.insert\<close> for indices from 0.\<close>

fun list_index :: "'a list \<Rightarrow> 'a \<Rightarrow> exn + nat" where
  "list_index [] x = Inl ValueError"
| "list_index (y # ys) x =
     (if y = x then Inr 0
      else (case list_index ys x of Inl e \<Rightarrow> Inl e | Inr i \<Rightarrow> Inr (Suc i)))"

definition list_pop :: "'a list \<Rightarrow> nat \<Rightarrow> exn + 'a \<times> 'a list" where
  "list_pop xs i =
     (if i < length xs then Inr (xs ! i, take i xs @ drop (Suc i) xs) else Inl IndexError)"

definition list_insert :: "nat \<Rightarrow> 'a \<Rightarrow> 'a list \<Rightarrow> 'a list" where
  "list_insert i x xs = take i xs @ x # drop i xs"

definition euler :: string where
  "euler = ''EulerAncestralDiscreteScheduler''"

text \<open>Lines 130 to 134: the list handed to the scheduler select box.\<close>

definition available_schedulers :: "inpainting \<Rightarrow> exn + string list" where
  "available_schedulers self =
     (let av = map fst (compatible_schedulers self)
      in if euler \<in> set av
         then (case list_index av euler of
                 Inl e \<Rightarrow> Inl e
               | Inr i \<Rightarrow>
                   (case list_pop av i of
                      Inl e \<Rightarrow> Inl e
                    | Inr (x, rest) \<Rightarrow> Inr (list_insert 0 x rest)))
         else Inr av)"

text \<open>
  \<^verbatim>\<open>st.selectbox(label, options, index=0)\<close> returns the option the user picked, the one
  at \<open>index\<close> until the user picks, and \<^verbatim>\<open>None\<close> when there is no option.
\<close>

definition selectbox :: "'a list \<Rightarrow> nat \<Rightarrow> 'a option" where
  "selectbox options i = (if i < length options then Some (options ! i) else None)"

text \<open>
  The condition of line 161, evaluated left to right with \<^verbatim>\<open>and\<close> stopping at the first
  false operand: the array to make the mask from when the condition holds. A PIL image
  is always true.
\<close>

definition submitted :: "canvas_result \<Rightarrow> image \<Rightarrow> bool \<Rightarrow> exn + ndarray option" where
  "submitted canvas pil_image submit =
     (case image_data canvas of
        None \<Rightarrow> Inr None
      | Some arr \<Rightarrow>
          (case json_data canvas of
             None \<Rightarrow> Inl TypeError
           | Some jd \<Rightarrow>
               (case getitem jd (Some ''objects'') of
                  Inl e \<Rightarrow> Inl e
                | Inr objects \<Rightarrow>
                    Inr (if length objects > 0 \<and> submit then Some arr else None))))"

definition app :: "env \<Rightarrow> session \<Rightarrow> unit py_method" where
  "app E ss w =
     (case available_schedulers (obj w) of
        Inl e \<Rightarrow> (Inl e, w)
      | Inr av \<Rightarrow>
          (case inpainting_uploaded_file ss of
             None \<Rightarrow> (Inr (), w)
           | Some uploaded_file \<Rightarrow>
               (case Image_open E uploaded_file of
                  Inl e \<Rightarrow> (Inl e, w)
                | Inr opened \<Rightarrow>
                    (let pil_image = convert ''RGB'' opened;
                         (img_height, img_width) = im_size pil_image
                     in case submitted (inpainting_canvas ss) pil_image (inpainting_submit ss) of
                          Inl e \<Rightarrow> (Inl e, w)
                        | Inr None \<Rightarrow> (Inr (), w)
                        | Inr (Some arr) \<Rightarrow>
                            (case fromarray_channel arr 3 of
                               Inl e \<Rightarrow> (Inl e, w)
                             | Inr mask_npy \<Rightarrow>
                                 (let mask_pil = resize (img_width, img_height) (Some LANCZOS)
                                                   (convert ''RGB'' mask_npy)
                                  in case generate_image E
                                            \<lparr>prompt = inpainting_prompt ss,
                                             negative_prompt = inpainting_negative_prompt ss,
                                             image = pil_image,
                                             mask = mask_pil,
                                             guidance_scale = inpainting_guidance_scale ss,
                                             scheduler_name = selectbox av (inpainting_scheduler ss),
                                             steps = inpainting_steps ss,
                                             seed = inpainting_seed ss,
                                             height = img_height,
                                             width = img_width,
                                             num_images = inpainting_num_images ss\<rparr> w of
                                       (Inl e, w1) \<Rightarrow> (Inl e, w1)
                                     | (Inr (output_images, metadata), w1) \<Rightarrow>
                                         (let w2 = emit (DisplayAndDownload output_images metadata) w1
                                          in case display_and_download_images E output_images metadata of
                                               Some e \<Rightarrow> (Inl e, w2)
                                             | None \<Rightarrow> (Inr (), w2))))))))"

section \<open>Observing a run\<close>

text \<open>The events a run appended to the trace, and the calls among them.\<close>

definition new_events :: "world \<Rightarrow> world \<Rightarrow> event list" where
  "new_events w w' = drop (length (trace w)) (trace w')"

fun pipeline_calls :: "event list \<Rightarrow> (pipeline \<times> kwargs) list" where
  "pipeline_calls [] = []"
| "pipeline_calls (PipelineCall p kw # evs) = (p, kw) # pipeline_calls evs"
| "pipeline_calls (ev # evs) = pipeline_calls evs"

fun saved :: "event list \<Rightarrow> (image list \<times> string \<times> json_text \<times> string option) list" where
  "saved [] = []"
| "saved (SaveImages ims m t out # evs) = (ims, m, t, out) # saved evs"
| "saved (ev # evs) = saved evs"

section \<open>A concrete environment\<close>

text \<open>
  Libraries that always answer, for running the model on concrete inputs: every model
  reports the same three scheduler classes, an upload \<open>u\<close> decodes to an image 512 wide
  and \<open>512 + 256 * u\<close> high, and the pipeline returns the requested number of images
  of the requested size.
\<close>

definition example_classes :: "sched_class list" where
  "example_classes =
     [SchedClass ''DDIMScheduler'' 0,
      SchedClass ''EulerAncestralDiscreteScheduler'' 1,
      SchedClass ''PNDMScheduler'' 2]"

definition example_config :: config where
  "example_config = [(''beta_schedule'', ''scaled_linear'')]"

definition example_pipeline :: pipeline where
  "example_pipeline =
     \<lparr>scheduler = \<lparr>sched_cls = SchedClass ''PNDMScheduler'' 2, config = example_config,
                   compatibles = example_classes\<rparr>,
      safety_checker = DefaultSafetyChecker,
      pipe_device = None,
      attention_slicing = False\<rparr>"

definition example_output :: "kwargs \<Rightarrow> image list" where
  "example_output kw =
     replicate (nat (case kw_num_images_per_prompt kw of None \<Rightarrow> 1 | Some n \<Rightarrow> n))
       \<lparr>im_size = (case (kw_width kw, kw_height kw) of
                     (Some x, Some y) \<Rightarrow> (x, y)
                   | _ \<Rightarrow> (512, 512)),
        im_mode = ''RGB'',
        im_data = Generated 0\<rparr>"

definition example_env :: env where
  "example_env =
     \<lparr>from_pretrained = (\<lambda>m d. Inr example_pipeline),
      pipeline_to = (\<lambda>p d. None),
      from_config = (\<lambda>c cfg. Inr \<lparr>sched_cls = c, config = cfg, compatibles = example_classes\<rparr>),
      torch_generator = (\<lambda>g. None),
      pipeline_call = (\<lambda>p kw. Inr (example_output kw)),
      save_images = (\<lambda>ims m t out. None),
      display_and_download_images = (\<lambda>ims info. None),
      requests_get = (\<lambda>url. Inr 0),
      Image_open = (\<lambda>u. Inr \<lparr>im_size = (512, 512 + 256 * int u), im_mode = ''RGB'',
                               im_data = Decoded u\<rparr>)\<rparr>"

text \<open>The object that the constructor builds in this environment on the given device.\<close>

definition example_obj :: "string \<Rightarrow> inpainting" where
  "example_obj dev =
     \<lparr>model = Some ''runwayml/stable-diffusion-inpainting'',
      device = Some dev,
      output_path = Some ''out'',
      pipeline = example_pipeline\<lparr>pipe_device := Some dev, safety_checker := NoSafetyChecker,
                   attention_slicing := (dev = ''mps'')\<rparr>,
      compatible_schedulers_list = example_classes,
      scheduler_config = example_config,
      compatible_schedulers =
        [(''DDIMScheduler'', SchedClass ''DDIMScheduler'' 0),
         (''EulerAncestralDiscreteScheduler'', SchedClass ''EulerAncestralDiscreteScheduler'' 1),
         (''PNDMScheduler'', SchedClass ''PNDMScheduler'' 2)]\<rparr>"

definition example_world :: "string \<Rightarrow> world" where
  "example_world dev = \<lparr>obj = example_obj dev, trace = []\<rparr>"

definition example_image :: image where
  "example_image = \<lparr>im_size = (512, 512), im_mode = ''RGB'', im_data = Decoded 0\<rparr>"

definition example_mask :: image where
  "example_mask = \<lparr>im_size = (512, 512), im_mode = ''RGB'', im_data = Decoded 7\<rparr>"

definition example_request :: request where
  "example_request =
     \<lparr>prompt = ''a red fox'',
      negative_prompt = ''blurry'',
      image = example_image,
      mask = example_mask,
      guidance_scale = 7.5,
      scheduler_name = Some ''DDIMScheduler'',
      steps = 50,
      seed = 42,
      height = 512,
      width = 512,
      num_images = 2\<rparr>"

text \<open>
  A run of the page: the widgets at their defaults, upload \<open>u\<close>, one stroke drawn on
  the 768 by 768 canvas, and Generate pressed.
\<close>

definition example_session :: "upload \<Rightarrow> session" where
  "example_session u =
     \<lparr>inpainting_prompt = ''a red fox'',
      inpainting_negative_prompt = [],
      inpainting_uploaded_file = Some u,
      inpainting_scheduler = 0,
      inpainting_guidance_scale = 7.5,
      inpainting_num_images = 1,
      inpainting_steps = 50,
      inpainting_seed = 42,
      inpainting_drawing_mode = ''freedraw'',
      inpainting_stroke_width = 8,
      inpainting_canvas =
        \<lparr>image_data = Some \<lparr>rows = 768, cols = 768, channels = 4, buffer = 0\<rparr>,
         json_data = Some [(''version'', []), (''objects'', [0])]\<rparr>,
      inpainting_submit = True\<rparr>"

section \<open>What the page hands to inference\<close>

text \<open>
  Names for the mask of line 171 and for the arguments of the call of line 173, in terms
  of the opened image: \<open>img_height\<close> is the first component of \<^verbatim>\<open>pil_image.size\<close> and
  \<open>img_width\<close> the second, as line 147 unpacks them.
\<close>

definition ui_mask :: "image \<Rightarrow> image \<Rightarrow> image" where
  "ui_mask pil_image mask_npy =
     resize (snd (im_size pil_image), fst (im_size pil_image)) (Some LANCZOS)
       (convert ''RGB'' mask_npy)"

definition ui_request :: "session \<Rightarrow> string list \<Rightarrow> image \<Rightarrow> image \<Rightarrow> request" where
  "ui_request ss av pil_image mask_pil =
     \<lparr>prompt = inpainting_prompt ss,
      negative_prompt = inpainting_negative_prompt ss,
      image = pil_image,
      mask = mask_pil,
      guidance_scale = inpainting_guidance_scale ss,
      scheduler_name = selectbox av (inpainting_scheduler ss),
      steps = inpainting_steps ss,
      seed = inpainting_seed ss,
      height = fst (im_size pil_image),
      width = snd (im_size pil_image),
      num_images = inpainting_num_images ss\<rparr>"

section \<open>Facts about traces and the scheduler swap\<close>

lemma new_events_append: "trace w' = trace w @ evs \<Longrightarrow> new_events w w' = evs"
  by (simp add: new_events_def)

lemma new_events_same: "new_events w w = []"
  by (simp add: new_events_def)

lemma pipeline_calls_append: "pipeline_calls (xs @ ys) = pipeline_calls xs @ pipeline_calls ys"
  by (induction xs rule: pipeline_calls.induct) simp_all

lemma saved_append: "saved (xs @ ys) = saved xs @ saved ys"
  by (induction xs rule: saved.induct) simp_all

lemma pipeline_calls_seed_events: "pipeline_calls (seed_events g) = []"
  by (cases g) (simp_all add: seed_events_def)

lemma saved_seed_events: "saved (seed_events g) = []"
  by (cases g) (simp_all add: seed_events_def)

lemma set_scheduler_trace: "trace (snd (set_scheduler E n w)) = trace w"
  by (simp add: set_scheduler_def split: sum.splits)

lemma set_scheduler_device: "device (obj (snd (set_scheduler E n w))) = device (obj w)"
  by (simp add: set_scheduler_def split: sum.splits)

lemma set_scheduler_model: "model (obj (snd (set_scheduler E n w))) = model (obj w)"
  by (simp add: set_scheduler_def split: sum.splits)

lemma set_scheduler_output_path:
  "output_path (obj (snd (set_scheduler E n w))) = output_path (obj w)"
  by (simp add: set_scheduler_def split: sum.splits)

lemma set_scheduler_frame:
  "obj (snd (set_scheduler E n w)) =
     (obj w)\<lparr>pipeline := (pipeline (obj w))
       \<lparr>scheduler := scheduler (pipeline (obj (snd (set_scheduler E n w))))\<rparr>\<rparr>"
  by (simp add: set_scheduler_def split: sum.splits)

lemma set_scheduler_installs:
  "set_scheduler E n w = (Inr u, w1) \<Longrightarrow>
     \<exists>cls. getitem (compatible_schedulers (obj w)) n = Inr cls
       \<and> from_config E cls (scheduler_config (obj w)) = Inr (scheduler (pipeline (obj w1)))"
  by (auto simp: set_scheduler_def split: sum.splits)

lemma getitem_missing:
  "n \<notin> Some ` fst ` set d \<Longrightarrow> getitem d n = Inl (KeyError n)"
  by (cases n) (auto simp: getitem_def map_of_eq_None_iff split: option.splits)

lemma getitem_present:
  "k \<in> fst ` set d \<Longrightarrow> \<exists>v. getitem d (Some k) = Inr v \<and> (k, v) \<in> set d"
  by (cases "map_of d k") (auto simp: getitem_def map_of_eq_None_iff dest: map_of_SomeD)

section \<open>The run of generate_image\<close>

text \<open>The result and the trace of \<open>generate_image\<close>, by the answers of the libraries.\<close>

lemma generate_image_run:
  "generate_image E r w =
     (case set_scheduler E (scheduler_name r) w of
        (Inl e, w1) \<Rightarrow> (Inl e, w1)
      | (Inr u, w1) \<Rightarrow>
          (let gen = fst (choose_generator (device (obj w1)) (seed r) (num_images r));
               n = snd (choose_generator (device (obj w1)) (seed r) (num_images r));
               kw = call_kwargs r gen n;
               p = pipeline (obj w1);
               md = Dumps (metadata_dict r);
               ev1 = [LoggerInfo (scheduler p)];
               ev2 = ev1 @ seed_events gen @ [PipelineCall p kw]
           in case torch_generator E gen of
                Some e \<Rightarrow> (Inl e, w1\<lparr>trace := trace w1 @ ev1\<rparr>)
              | None \<Rightarrow>
                  (case pipeline_call E p kw of
                     Inl e \<Rightarrow> (Inl e, w1\<lparr>trace := trace w1 @ ev2\<rparr>)
                   | Inr ims \<Rightarrow>
                       (case save_images E ims ''inpainting'' md (output_path (obj w1)) of
                          Some e \<Rightarrow>
                            (Inl e, w1\<lparr>trace := trace w1 @ ev2 @
                                       [SaveImages ims ''inpainting'' md (output_path (obj w1))]\<rparr>)
                        | None \<Rightarrow>
                            (Inr (ims, [(''inpainting'', md)]),
                             w1\<lparr>trace := trace w1 @ ev2 @
                                  [SaveImages ims ''inpainting'' md (output_path (obj w1)),
                                   CudaEmptyCache, GcCollect]\<rparr>)))))"
  by (cases "choose_generator (device (obj (snd (set_scheduler E (scheduler_name r) w))))
               (seed r) (num_images r)")
    (auto simp: generate_image_def emit_def add_text_def Let_def
      split: prod.splits sum.splits option.splits)

lemma generate_image_obj:
  "obj (snd (generate_image E r w)) = obj (snd (set_scheduler E (scheduler_name r) w))"
  by (simp add: generate_image_run Let_def split: prod.splits sum.splits option.splits)

lemma generate_image_extends: "\<exists>evs. trace (snd (generate_image E r w)) = trace w @ evs"
proof (cases "set_scheduler E (scheduler_name r) w")
  case (Pair res w1)
  have tr: "trace w1 = trace w"
    using set_scheduler_trace [of E "scheduler_name r" w] Pair by simp
  show ?thesis
    by (simp add: generate_image_run Pair Let_def tr split: sum.splits option.splits)
qed

lemma generate_image_calls:
  "pipeline_calls (new_events w (snd (generate_image E r w))) =
     (case set_scheduler E (scheduler_name r) w of
        (Inl e, w1) \<Rightarrow> []
      | (Inr u, w1) \<Rightarrow>
          (case torch_generator E (fst (choose_generator (device (obj w)) (seed r) (num_images r))) of
             Some e \<Rightarrow> []
           | None \<Rightarrow>
               [(pipeline (obj w1),
                 call_kwargs r (fst (choose_generator (device (obj w)) (seed r) (num_images r)))
                   (snd (choose_generator (device (obj w)) (seed r) (num_images r))))]))"
proof (cases "set_scheduler E (scheduler_name r) w")
  case (Pair res w1)
  have tr: "trace w1 = trace w" and dev: "device (obj w1) = device (obj w)"
    using set_scheduler_trace [of E "scheduler_name r" w]
      set_scheduler_device [of E "scheduler_name r" w] Pair by simp_all
  show ?thesis
    by (simp add: generate_image_run Pair Let_def new_events_def tr dev
        pipeline_calls_append pipeline_calls_seed_events
        split: sum.splits option.splits)
qed

lemma generate_image_saved:
  "saved (new_events w (snd (generate_image E r w))) =
     (case set_scheduler E (scheduler_name r) w of
        (Inl e1, w1) \<Rightarrow> []
      | (Inr u, w1) \<Rightarrow>
          (let gen = fst (choose_generator (device (obj w)) (seed r) (num_images r));
               n = snd (choose_generator (device (obj w)) (seed r) (num_images r))
           in case torch_generator E gen of
                Some e2 \<Rightarrow> []
              | None \<Rightarrow>
                  (case pipeline_call E (pipeline (obj w1)) (call_kwargs r gen n) of
                     Inl e3 \<Rightarrow> []
                   | Inr ims \<Rightarrow>
                       [(ims, ''inpainting'', Dumps (metadata_dict r), output_path (obj w))])))"
proof (cases "set_scheduler E (scheduler_name r) w")
  case (Pair res w1)
  have tr: "trace w1 = trace w" and dev: "device (obj w1) = device (obj w)"
    and out: "output_path (obj w1) = output_path (obj w)"
    using set_scheduler_trace [of E "scheduler_name r" w]
      set_scheduler_device [of E "scheduler_name r" w]
      set_scheduler_output_path [of E "scheduler_name r" w] Pair by simp_all
  show ?thesis
    by (simp add: generate_image_run Pair Let_def new_events_def tr dev out
        saved_append saved_seed_events
        split: sum.splits option.splits)
qed

lemma set_scheduler_keeps:
  "compatible_schedulers (obj (snd (set_scheduler E n w))) = compatible_schedulers (obj w)"
  "compatible_schedulers_list (obj (snd (set_scheduler E n w))) = compatible_schedulers_list (obj w)"
  "scheduler_config (obj (snd (set_scheduler E n w))) = scheduler_config (obj w)"
  by (simp_all add: set_scheduler_def split: sum.splits)

lemma set_scheduler_pipeline:
  "pipeline (obj (snd (set_scheduler E n w))) =
     (pipeline (obj w))\<lparr>scheduler := scheduler (pipeline (obj (snd (set_scheduler E n w))))\<rparr>"
  by (simp add: set_scheduler_def split: sum.splits)

lemma generate_image_config:
  "model (obj (snd (generate_image E r w))) = model (obj w)"
  "device (obj (snd (generate_image E r w))) = device (obj w)"
  "output_path (obj (snd (generate_image E r w))) = output_path (obj w)"
  by (simp_all add: generate_image_obj set_scheduler_model set_scheduler_device
      set_scheduler_output_path)

lemma generate_image_success:
  assumes "generate_image E r w = (Inr (ims, info), w')"
  shows "info = [(''inpainting'', Dumps (metadata_dict r))]"
    and "saved (new_events w w') = [(ims, ''inpainting'', Dumps (metadata_dict r), output_path (obj w))]"
    and "length (pipeline_calls (new_events w w')) = 1"
proof -
  obtain res w1 where s: "set_scheduler E (scheduler_name r) w = (res, w1)"
    by (cases "set_scheduler E (scheduler_name r) w")
  have dev: "device (obj w1) = device (obj w)"
    using set_scheduler_device [of E "scheduler_name r" w] s by simp
  from assms s show "info = [(''inpainting'', Dumps (metadata_dict r))]"
    by (auto simp: generate_image_run Let_def split: sum.splits option.splits)
  have w': "w' = snd (generate_image E r w)"
    using assms by simp
  from assms s dev show "saved (new_events w w') =
      [(ims, ''inpainting'', Dumps (metadata_dict r), output_path (obj w))]"
    unfolding w' generate_image_saved
    by (auto simp: generate_image_run Let_def split: sum.splits option.splits)
  from assms s dev show "length (pipeline_calls (new_events w w')) = 1"
    unfolding w' generate_image_calls
    by (auto simp: generate_image_run Let_def split: sum.splits option.splits)
qed

lemma generate_image_error_origin:
  assumes "fst (generate_image E r w) = Inl e"
  shows "getitem (compatible_schedulers (obj w)) (scheduler_name r) = Inl e
       \<or> (\<exists>cls. from_config E cls (scheduler_config (obj w)) = Inl e)
       \<or> (\<exists>g. torch_generator E g = Some e)
       \<or> (\<exists>p kw. pipeline_call E p kw = Inl e)
       \<or> (\<exists>ims t out. save_images E ims ''inpainting'' t out = Some e)"
  using assms
  by (simp add: generate_image_run set_scheduler_def Let_def split: sum.splits option.splits)
     blast+

section \<open>Construction and the scheduler list\<close>

lemma post_init_config:
  "post_init E mdl dev out tr = (Inr self, tr') \<Longrightarrow>
     model self = mdl \<and> device self = dev \<and> output_path self = out"
  by (auto simp: post_init_def Let_def split: sum.splits option.splits if_splits prod.splits)

lemma post_init_schedulers:
  "post_init E mdl dev out tr = (Inr self, tr') \<Longrightarrow>
     \<exists>p0. from_pretrained E mdl (if dev = Some ''cuda'' then Float16 else Float32) = Inr p0
        \<and> compatible_schedulers_list self = compatibles (scheduler p0)
        \<and> compatible_schedulers self = dict_by_name (compatibles (scheduler p0))
        \<and> scheduler_config self = config (scheduler p0)"
  by (auto simp: post_init_def Let_def split: sum.splits option.splits if_splits prod.splits)

lemma foldl_update_keys:
  "fst ` set (foldl (\<lambda>d c. AList.update (cls_name c) c d) d0 cs) = fst ` set d0 \<union> cls_name ` set cs"
  by (induction cs arbitrary: d0) (auto simp: dom_update)

lemma foldl_update_distinct:
  "distinct (map fst d0) \<Longrightarrow> distinct (map fst (foldl (\<lambda>d c. AList.update (cls_name c) c d) d0 cs))"
  by (induction cs arbitrary: d0) (auto simp: distinct_update)

lemma dict_by_name_keys: "set (map fst (dict_by_name cs)) = cls_name ` set cs"
  using foldl_update_keys [of "[]" cs] by (simp add: dict_by_name_def)

lemma dict_by_name_distinct: "distinct (map fst (dict_by_name cs))"
  using foldl_update_distinct [of "[]" cs] by (simp add: dict_by_name_def)

lemma list_index_member:
  "x \<in> set xs \<Longrightarrow> \<exists>i. list_index xs x = Inr i \<and> i < length xs \<and> xs ! i = x
     \<and> take i xs @ drop (Suc i) xs = remove1 x xs"
proof (induction xs)
  case Nil
  then show ?case by simp
next
  case (Cons y ys)
  show ?case
  proof (cases "y = x")
    case True
    then show ?thesis by simp
  next
    case False
    with Cons obtain i where "list_index ys x = Inr i" "i < length ys" "ys ! i = x"
      "take i ys @ drop (Suc i) ys = remove1 x ys"
      by auto
    with False show ?thesis by simp
  qed
qed

lemma available_schedulers_eq:
  "available_schedulers self =
     Inr (if euler \<in> set (map fst (compatible_schedulers self))
          then euler # remove1 euler (map fst (compatible_schedulers self))
          else map fst (compatible_schedulers self))"
proof (cases "euler \<in> set (map fst (compatible_schedulers self))")
  case True
  from list_index_member [OF True] obtain i where
    "list_index (map fst (compatible_schedulers self)) euler = Inr i"
    "i < length (map fst (compatible_schedulers self))"
    "map fst (compatible_schedulers self) ! i = euler"
    "take i (map fst (compatible_schedulers self)) @ drop (Suc i) (map fst (compatible_schedulers self))
       = remove1 euler (map fst (compatible_schedulers self))"
    by blast
  with True show ?thesis
    by (simp add: available_schedulers_def list_pop_def list_insert_def Let_def del: set_map)
next
  case False
  then show ?thesis
    by (simp add: available_schedulers_def Let_def del: set_map)
qed

section \<open>The run of the page\<close>

text \<open>The definition of \<open>app\<close> with the names of lines 147, 171 and 173 folded in.\<close>

lemma app_run:
  "app E ss w =
     (case available_schedulers (obj w) of
        Inl e \<Rightarrow> (Inl e, w)
      | Inr av \<Rightarrow>
          (case inpainting_uploaded_file ss of
             None \<Rightarrow> (Inr (), w)
           | Some u \<Rightarrow>
               (case Image_open E u of
                  Inl e \<Rightarrow> (Inl e, w)
                | Inr opened \<Rightarrow>
                    (case submitted (inpainting_canvas ss) (convert ''RGB'' opened)
                            (inpainting_submit ss) of
                       Inl e \<Rightarrow> (Inl e, w)
                     | Inr None \<Rightarrow> (Inr (), w)
                     | Inr (Some arr) \<Rightarrow>
                         (case fromarray_channel arr 3 of
                            Inl e \<Rightarrow> (Inl e, w)
                          | Inr m \<Rightarrow>
                              (case generate_image E
                                      (ui_request ss av (convert ''RGB'' opened)
                                         (ui_mask (convert ''RGB'' opened) m)) w of
                                 (Inl e, w1) \<Rightarrow> (Inl e, w1)
                               | (Inr (ims, info), w1) \<Rightarrow>
                                   (case display_and_download_images E ims info of
                                      Some e \<Rightarrow> (Inl e, emit (DisplayAndDownload ims info) w1)
                                    | None \<Rightarrow> (Inr (), emit (DisplayAndDownload ims info) w1))))))))"
  by (simp add: app_def ui_request_def ui_mask_def Let_def case_prod_beta
      split: sum.splits option.splits)

lemma app_obj:
  "obj (snd (app E ss w)) = obj w \<or> (\<exists>r. obj (snd (app E ss w)) = obj (snd (generate_image E r w)))"
  by (auto simp: app_run emit_def split: sum.splits option.splits prod.splits)
     (metis snd_conv)+

lemma app_config:
  "model (obj (snd (app E ss w))) = model (obj w)"
  "device (obj (snd (app E ss w))) = device (obj w)"
  "output_path (obj (snd (app E ss w))) = output_path (obj w)"
  using app_obj [of E ss w] by (auto simp: generate_image_config)

lemma new_events_emit:
  "trace w1 = trace w @ evs \<Longrightarrow> new_events w (emit ev w1) = new_events w w1 @ [ev]"
  by (simp add: new_events_def emit_def)

lemma submitted_Some:
  "submitted c pil submit = Inr (Some arr) \<Longrightarrow>
     submit \<and> image_data c = Some arr
     \<and> (\<exists>jd objs. json_data c = Some jd \<and> map_of jd ''objects'' = Some objs \<and> 0 < length objs)"
  by (auto simp: submitted_def getitem_def split: option.splits sum.splits if_splits)

lemma submitted_empty:
  "json_data c = Some jd \<Longrightarrow> map_of jd ''objects'' = Some [] \<Longrightarrow>
     submitted c pil submit = Inr None"
  by (simp add: submitted_def getitem_def split: option.splits)

text \<open>
  What a run of the page does beyond returning is what its one call of
  \<open>generate_image\<close> does, followed by the display of the result.
\<close>

lemma app_submitted:
  assumes "available_schedulers (obj w) = Inr av"
    and "inpainting_uploaded_file ss = Some u"
    and "Image_open E u = Inr opened"
    and "submitted (inpainting_canvas ss) (convert ''RGB'' opened) (inpainting_submit ss) = Inr (Some arr)"
    and "fromarray_channel arr 3 = Inr m"
  shows "pipeline_calls (new_events w (snd (app E ss w))) =
           pipeline_calls (new_events w (snd (generate_image E
             (ui_request ss av (convert ''RGB'' opened) (ui_mask (convert ''RGB'' opened) m)) w)))"
    and "saved (new_events w (snd (app E ss w))) =
           saved (new_events w (snd (generate_image E
             (ui_request ss av (convert ''RGB'' opened) (ui_mask (convert ''RGB'' opened) m)) w)))"
proof -
  let ?r = "ui_request ss av (convert ''RGB'' opened) (ui_mask (convert ''RGB'' opened) m)"
  obtain res w1 where g: "generate_image E ?r w = (res, w1)"
    by (cases "generate_image E ?r w")
  from generate_image_extends [of E ?r w] g obtain evs where "trace w1 = trace w @ evs"
    by auto
  then have e: "new_events w (emit ev w1) = new_events w w1 @ [ev]" for ev
    by (rule new_events_emit)
  show "pipeline_calls (new_events w (snd (app E ss w))) =
          pipeline_calls (new_events w (snd (generate_image E ?r w)))"
    by (cases res)
      (auto simp: app_run assms g e pipeline_calls_append split: option.splits)
  show "saved (new_events w (snd (app E ss w))) =
          saved (new_events w (snd (generate_image E ?r w)))"
    by (cases res)
      (auto simp: app_run assms g e saved_append split: option.splits)
qed

lemma app_effects:
  "snd (app E ss w) = w
   \<or> (\<exists>av u opened arr m.
        available_schedulers (obj w) = Inr av
        \<and> inpainting_uploaded_file ss = Some u
        \<and> Image_open E u = Inr opened
        \<and> submitted (inpainting_canvas ss) (convert ''RGB'' opened) (inpainting_submit ss) = Inr (Some arr)
        \<and> fromarray_channel arr 3 = Inr m
        \<and> pipeline_calls (new_events w (snd (app E ss w))) =
            pipeline_calls (new_events w (snd (generate_image E
              (ui_request ss av (convert ''RGB'' opened) (ui_mask (convert ''RGB'' opened) m)) w)))
        \<and> saved (new_events w (snd (app E ss w))) =
            saved (new_events w (snd (generate_image E
              (ui_request ss av (convert ''RGB'' opened) (ui_mask (convert ''RGB'' opened) m)) w))))"
proof (cases "snd (app E ss w) = w")
  case True
  then show ?thesis by simp
next
  case False
  then obtain av u opened arr m where
    h: "available_schedulers (obj w) = Inr av"
      "inpainting_uploaded_file ss = Some u"
      "Image_open E u = Inr opened"
      "submitted (inpainting_canvas ss) (convert ''RGB'' opened) (inpainting_submit ss) = Inr (Some arr)"
      "fromarray_channel arr 3 = Inr m"
    by (auto simp: app_run split: sum.splits option.splits)
  from app_submitted [OF h] h show ?thesis
    by blast
qed

text \<open>
  In every call that the page makes, the mask has the source image's dimensions
  exchanged, and \<open>height\<close> and \<open>width\<close> are the image's width and height.
\<close>

lemma app_mask_size:
  assumes "(p, kw) \<in> set (pipeline_calls (new_events w (snd (app E ss w))))"
  shows "im_size (kw_mask_image kw) = prod.swap (im_size (kw_image kw))
       \<and> kw_height kw = Some (fst (im_size (kw_image kw)))
       \<and> kw_width kw = Some (snd (im_size (kw_image kw)))"
proof -
  from app_effects [of E ss w] assms obtain r pil m where
    "(p, kw) \<in> set (pipeline_calls (new_events w (snd (generate_image E r w))))"
    and r: "r = ui_request ss (projr (available_schedulers (obj w))) pil (ui_mask pil m)"
    by (auto simp: new_events_same)
  then have "kw = call_kwargs r (fst (choose_generator (device (obj w)) (seed r) (num_images r)))
                   (snd (choose_generator (device (obj w)) (seed r) (num_images r)))"
    by (auto simp: generate_image_calls split: prod.splits sum.splits option.splits)
  then show ?thesis
    by (simp add: call_kwargs_def r ui_request_def ui_mask_def resize_def prod.swap_def)
qed

section \<open>Failures of the libraries\<close>

text \<open>
  Each operation, at each call it makes that can raise: when the call raises, the
  operation leaves with that exception.
\<close>

lemma set_scheduler_success:
  "getitem (compatible_schedulers (obj w)) n = Inr cls \<Longrightarrow>
   from_config E cls (scheduler_config (obj w)) = Inr sch \<Longrightarrow>
     set_scheduler E n w =
       (Inr (), w\<lparr>obj := (obj w)\<lparr>pipeline := (pipeline (obj w))\<lparr>scheduler := sch\<rparr>\<rparr>\<rparr>)"
  by (simp add: set_scheduler_def)

lemma set_scheduler_failure:
  "getitem (compatible_schedulers (obj w)) n = Inl e \<Longrightarrow> set_scheduler E n w = (Inl e, w)"
  "getitem (compatible_schedulers (obj w)) n = Inr cls \<Longrightarrow>
   from_config E cls (scheduler_config (obj w)) = Inl e \<Longrightarrow> set_scheduler E n w = (Inl e, w)"
  by (simp_all add: set_scheduler_def)

lemma app_keeps:
  "compatible_schedulers (obj (snd (app E ss w))) = compatible_schedulers (obj w)"
  "scheduler_config (obj (snd (app E ss w))) = scheduler_config (obj w)"
  using app_obj [of E ss w] by (auto simp: generate_image_obj set_scheduler_keeps)

lemma generate_image_raises:
  "fst (set_scheduler E (scheduler_name r) w) = Inl e \<Longrightarrow> generate_image E r w = (Inl e, w)"
  "fst (set_scheduler E (scheduler_name r) w) = Inr () \<Longrightarrow>
   torch_generator E (fst (choose_generator (device (obj w)) (seed r) (num_images r))) = Some e \<Longrightarrow>
     fst (generate_image E r w) = Inl e
     \<and> pipeline_calls (new_events w (snd (generate_image E r w))) = []
     \<and> saved (new_events w (snd (generate_image E r w))) = []"
  "fst (set_scheduler E (scheduler_name r) w) = Inr () \<Longrightarrow>
   torch_generator E (fst (choose_generator (device (obj w)) (seed r) (num_images r))) = None \<Longrightarrow>
   pipeline_call E (pipeline (obj (snd (set_scheduler E (scheduler_name r) w))))
     (call_kwargs r (fst (choose_generator (device (obj w)) (seed r) (num_images r)))
        (snd (choose_generator (device (obj w)) (seed r) (num_images r)))) = Inl e \<Longrightarrow>
     fst (generate_image E r w) = Inl e
     \<and> saved (new_events w (snd (generate_image E r w))) = []"
  "fst (set_scheduler E (scheduler_name r) w) = Inr () \<Longrightarrow>
   torch_generator E (fst (choose_generator (device (obj w)) (seed r) (num_images r))) = None \<Longrightarrow>
   pipeline_call E (pipeline (obj (snd (set_scheduler E (scheduler_name r) w))))
     (call_kwargs r (fst (choose_generator (device (obj w)) (seed r) (num_images r)))
        (snd (choose_generator (device (obj w)) (seed r) (num_images r)))) = Inr ims \<Longrightarrow>
   save_images E ims ''inpainting'' (Dumps (metadata_dict r)) (output_path (obj w)) = Some e \<Longrightarrow>
     fst (generate_image E r w) = Inl e"
proof -
  obtain res w1 where s: "set_scheduler E (scheduler_name r) w = (res, w1)"
    by (cases "set_scheduler E (scheduler_name r) w")
  have dev: "device (obj w1) = device (obj w)" and out: "output_path (obj w1) = output_path (obj w)"
    using set_scheduler_device [of E "scheduler_name r" w]
      set_scheduler_output_path [of E "scheduler_name r" w] s by simp_all
  show "fst (set_scheduler E (scheduler_name r) w) = Inl e \<Longrightarrow> generate_image E r w = (Inl e, w)"
    by (auto simp: generate_image_run set_scheduler_def split: sum.splits)
  show "fst (set_scheduler E (scheduler_name r) w) = Inr () \<Longrightarrow>
   torch_generator E (fst (choose_generator (device (obj w)) (seed r) (num_images r))) = Some e \<Longrightarrow>
     fst (generate_image E r w) = Inl e
     \<and> pipeline_calls (new_events w (snd (generate_image E r w))) = []
     \<and> saved (new_events w (snd (generate_image E r w))) = []"
    unfolding generate_image_calls generate_image_saved
    by (simp add: generate_image_run s dev Let_def)
  show "fst (set_scheduler E (scheduler_name r) w) = Inr () \<Longrightarrow>
   torch_generator E (fst (choose_generator (device (obj w)) (seed r) (num_images r))) = None \<Longrightarrow>
   pipeline_call E (pipeline (obj (snd (set_scheduler E (scheduler_name r) w))))
     (call_kwargs r (fst (choose_generator (device (obj w)) (seed r) (num_images r)))
        (snd (choose_generator (device (obj w)) (seed r) (num_images r)))) = Inl e \<Longrightarrow>
     fst (generate_image E r w) = Inl e
     \<and> saved (new_events w (snd (generate_image E r w))) = []"
    unfolding generate_image_saved
    by (simp add: generate_image_run s dev Let_def)
  show "fst (set_scheduler E (scheduler_name r) w) = Inr () \<Longrightarrow>
   torch_generator E (fst (choose_generator (device (obj w)) (seed r) (num_images r))) = None \<Longrightarrow>
   pipeline_call E (pipeline (obj (snd (set_scheduler E (scheduler_name r) w))))
     (call_kwargs r (fst (choose_generator (device (obj w)) (seed r) (num_images r)))
        (snd (choose_generator (device (obj w)) (seed r) (num_images r)))) = Inr ims \<Longrightarrow>
   save_images E ims ''inpainting'' (Dumps (metadata_dict r)) (output_path (obj w)) = Some e \<Longrightarrow>
     fst (generate_image E r w) = Inl e"
    by (simp add: generate_image_run s dev out Let_def)
qed

lemma available_schedulers_Inr: "\<exists>av. available_schedulers self = Inr av"
  by (simp add: available_schedulers_eq del: set_map)

lemma app_raises:
  assumes "inpainting_uploaded_file ss = Some u"
  shows "Image_open E u = Inl e \<Longrightarrow> app E ss w = (Inl e, w)"
    and "Image_open E u = Inr opened \<Longrightarrow>
         submitted (inpainting_canvas ss) (convert ''RGB'' opened) (inpainting_submit ss) = Inl e \<Longrightarrow>
           app E ss w = (Inl e, w)"
    and "Image_open E u = Inr opened \<Longrightarrow>
         submitted (inpainting_canvas ss) (convert ''RGB'' opened) (inpainting_submit ss) = Inr (Some arr) \<Longrightarrow>
         fromarray_channel arr 3 = Inl e \<Longrightarrow>
           app E ss w = (Inl e, w)"
    and "Image_open E u = Inr opened \<Longrightarrow>
         submitted (inpainting_canvas ss) (convert ''RGB'' opened) (inpainting_submit ss) = Inr (Some arr) \<Longrightarrow>
         fromarray_channel arr 3 = Inr m \<Longrightarrow>
         available_schedulers (obj w) = Inr av \<Longrightarrow>
         fst (generate_image E
                (ui_request ss av (convert ''RGB'' opened) (ui_mask (convert ''RGB'' opened) m)) w) = Inl e \<Longrightarrow>
           app E ss w =
             (Inl e, snd (generate_image E
                (ui_request ss av (convert ''RGB'' opened) (ui_mask (convert ''RGB'' opened) m)) w))"
    and "Image_open E u = Inr opened \<Longrightarrow>
         submitted (inpainting_canvas ss) (convert ''RGB'' opened) (inpainting_submit ss) = Inr (Some arr) \<Longrightarrow>
         fromarray_channel arr 3 = Inr m \<Longrightarrow>
         available_schedulers (obj w) = Inr av \<Longrightarrow>
         fst (generate_image E
                (ui_request ss av (convert ''RGB'' opened) (ui_mask (convert ''RGB'' opened) m)) w)
           = Inr (ims, info) \<Longrightarrow>
         display_and_download_images E ims info = Some e \<Longrightarrow>
           fst (app E ss w) = Inl e"
proof -
  obtain av' where av': "available_schedulers (obj w) = Inr av'"
    using available_schedulers_Inr by blast
  show "Image_open E u = Inl e \<Longrightarrow> app E ss w = (Inl e, w)"
    by (simp add: app_run assms av')
  show "Image_open E u = Inr opened \<Longrightarrow>
         submitted (inpainting_canvas ss) (convert ''RGB'' opened) (inpainting_submit ss) = Inl e \<Longrightarrow>
           app E ss w = (Inl e, w)"
    by (simp add: app_run assms av')
  show "Image_open E u = Inr opened \<Longrightarrow>
         submitted (inpainting_canvas ss) (convert ''RGB'' opened) (inpainting_submit ss) = Inr (Some arr) \<Longrightarrow>
         fromarray_channel arr 3 = Inl e \<Longrightarrow>
           app E ss w = (Inl e, w)"
    by (simp add: app_run assms av')
  show "Image_open E u = Inr opened \<Longrightarrow>
         submitted (inpainting_canvas ss) (convert ''RGB'' opened) (inpainting_submit ss) = Inr (Some arr) \<Longrightarrow>
         fromarray_channel arr 3 = Inr m \<Longrightarrow>
         available_schedulers (obj w) = Inr av \<Longrightarrow>
         fst (generate_image E
                (ui_request ss av (convert ''RGB'' opened) (ui_mask (convert ''RGB'' opened) m)) w) = Inl e \<Longrightarrow>
           app E ss w =
             (Inl e, snd (generate_image E
                (ui_request ss av (convert ''RGB'' opened) (ui_mask (convert ''RGB'' opened) m)) w))"
    by (cases "generate_image E
                (ui_request ss av (convert ''RGB'' opened) (ui_mask (convert ''RGB'' opened) m)) w")
      (simp add: app_run assms)
  show "Image_open E u = Inr opened \<Longrightarrow>
         submitted (inpainting_canvas ss) (convert ''RGB'' opened) (inpainting_submit ss) = Inr (Some arr) \<Longrightarrow>
         fromarray_channel arr 3 = Inr m \<Longrightarrow>
         available_schedulers (obj w) = Inr av \<Longrightarrow>
         fst (generate_image E
                (ui_request ss av (convert ''RGB'' opened) (ui_mask (convert ''RGB'' opened) m)) w)
           = Inr (ims, info) \<Longrightarrow>
         display_and_download_images E ims info = Some e \<Longrightarrow>
           fst (app E ss w) = Inl e"
    by (cases "generate_image E
                (ui_request ss av (convert ''RGB'' opened) (ui_mask (convert ''RGB'' opened) m)) w")
      (simp add: app_run assms)
qed

lemma download_image_raises:
  "requests_get E url = Inl e \<Longrightarrow> fst (download_image E url tr) = Inl e"
  "requests_get E url = Inr content \<Longrightarrow> Image_open E content = Inl e \<Longrightarrow>
     fst (download_image E url tr) = Inl e"
  by (simp_all add: download_image_def Let_def)

lemma post_init_raises:
  "from_pretrained E mdl (if dev = Some ''cuda'' then Float16 else Float32) = Inl e \<Longrightarrow>
     post_init E mdl dev out tr = (Inl e, tr)"
  "from_pretrained E mdl (if dev = Some ''cuda'' then Float16 else Float32) = Inr p0 \<Longrightarrow>
   pipeline_to E p0 dev = Some e \<Longrightarrow>
     post_init E mdl dev out tr = (Inl e, tr)"
  "from_pretrained E mdl (if dev = Some ''cuda'' then Float16 else Float32) = Inr p0 \<Longrightarrow>
   pipeline_to E p0 dev = None \<Longrightarrow> dev = Some ''mps'' \<Longrightarrow>
   fst (download_image E img_url tr) = Inl e \<Longrightarrow>
     fst (post_init E mdl dev out tr) = Inl e"
  "from_pretrained E mdl (if dev = Some ''cuda'' then Float16 else Float32) = Inr p0 \<Longrightarrow>
   pipeline_to E p0 dev = None \<Longrightarrow> dev = Some ''mps'' \<Longrightarrow>
   download_image E img_url tr = (Inr im, tr1) \<Longrightarrow>
   fst (download_image E mask_url tr1) = Inl e \<Longrightarrow>
     fst (post_init E mdl dev out tr) = Inl e"
  "from_pretrained E mdl (if dev = Some ''cuda'' then Float16 else Float32) = Inr p0 \<Longrightarrow>
   pipeline_to E p0 dev = None \<Longrightarrow> dev = Some ''mps'' \<Longrightarrow>
   download_image E img_url tr = (Inr im, tr1) \<Longrightarrow>
   download_image E mask_url tr1 = (Inr mk, tr2) \<Longrightarrow>
   pipeline_call E (p0\<lparr>pipe_device := dev, safety_checker := NoSafetyChecker, attention_slicing := True\<rparr>)
     (warmup_kwargs (resize (512, 512) None im) (resize (512, 512) None mk)) = Inl e \<Longrightarrow>
     fst (post_init E mdl dev out tr) = Inl e"
proof -
  show "from_pretrained E mdl (if dev = Some ''cuda'' then Float16 else Float32) = Inl e \<Longrightarrow>
     post_init E mdl dev out tr = (Inl e, tr)"
    by (simp add: post_init_def)
  show "from_pretrained E mdl (if dev = Some ''cuda'' then Float16 else Float32) = Inr p0 \<Longrightarrow>
   pipeline_to E p0 dev = Some e \<Longrightarrow>
     post_init E mdl dev out tr = (Inl e, tr)"
    by (simp add: post_init_def)
  show "from_pretrained E mdl (if dev = Some ''cuda'' then Float16 else Float32) = Inr p0 \<Longrightarrow>
   pipeline_to E p0 dev = None \<Longrightarrow> dev = Some ''mps'' \<Longrightarrow>
   fst (download_image E img_url tr) = Inl e \<Longrightarrow>
     fst (post_init E mdl dev out tr) = Inl e"
    by (cases "download_image E img_url tr") (simp add: post_init_def Let_def)
  show "from_pretrained E mdl (if dev = Some ''cuda'' then Float16 else Float32) = Inr p0 \<Longrightarrow>
   pipeline_to E p0 dev = None \<Longrightarrow> dev = Some ''mps'' \<Longrightarrow>
   download_image E img_url tr = (Inr im, tr1) \<Longrightarrow>
   fst (download_image E mask_url tr1) = Inl e \<Longrightarrow>
     fst (post_init E mdl dev out tr) = Inl e"
    by (cases "download_image E mask_url tr1") (simp add: post_init_def Let_def)
  show "from_pretrained E mdl (if dev = Some ''cuda'' then Float16 else Float32) = Inr p0 \<Longrightarrow>
   pipeline_to E p0 dev = None \<Longrightarrow> dev = Some ''mps'' \<Longrightarrow>
   download_image E img_url tr = (Inr im, tr1) \<Longrightarrow>
   download_image E mask_url tr1 = (Inr mk, tr2) \<Longrightarrow>
   pipeline_call E (p0\<lparr>pipe_device := dev, safety_checker := NoSafetyChecker, attention_slicing := True\<rparr>)
     (warmup_kwargs (resize (512, 512) None im) (resize (512, 512) None mk)) = Inl e \<Longrightarrow>
     fst (post_init E mdl dev out tr) = Inl e"
    by (simp add: post_init_def Let_def)
qed

section \<open>Runs in the concrete environment\<close>

lemma post_init_example:
  "post_init example_env (Some ''runwayml/stable-diffusion-inpainting'') (Some ''cpu'') (Some ''out'') [] =
     (Inr (example_obj ''cpu''), [])"
  by (simp add: post_init_def example_env_def example_obj_def example_pipeline_def Let_def
      dict_by_name_def example_classes_def)

lemma example_run_ddim:
  "set_scheduler example_env (Some ''DDIMScheduler'') (example_world dev) =
     (Inr (), (example_world dev)\<lparr>obj := (example_obj dev)\<lparr>pipeline := (pipeline (example_obj dev))
        \<lparr>scheduler := \<lparr>sched_cls = SchedClass ''DDIMScheduler'' 0, config = example_config,
                        compatibles = example_classes\<rparr>\<rparr>\<rparr>\<rparr>)"
  by (simp add: set_scheduler_def getitem_def example_world_def example_obj_def example_env_def)

lemma example_run_euler:
  "set_scheduler example_env (Some ''EulerAncestralDiscreteScheduler'') (example_world dev) =
     (Inr (), (example_world dev)\<lparr>obj := (example_obj dev)\<lparr>pipeline := (pipeline (example_obj dev))
        \<lparr>scheduler := \<lparr>sched_cls = SchedClass ''EulerAncestralDiscreteScheduler'' 1,
                        config = example_config, compatibles = example_classes\<rparr>\<rparr>\<rparr>\<rparr>)"
  by (simp add: set_scheduler_def getitem_def example_world_def example_obj_def example_env_def)

lemma example_available:
  "available_schedulers (obj (example_world dev)) =
     Inr [''EulerAncestralDiscreteScheduler'', ''DDIMScheduler'', ''PNDMScheduler'']"
  by (simp add: available_schedulers_eq example_world_def example_obj_def euler_def)

lemma example_page_scheduler:
  "scheduler_name (ui_request (example_session u)
           [''EulerAncestralDiscreteScheduler'', ''DDIMScheduler'', ''PNDMScheduler''] a b)
      = Some ''EulerAncestralDiscreteScheduler''"
  by (simp add: ui_request_def selectbox_def example_session_def)

lemma example_page_calls:
  "pipeline_calls (new_events (example_world ''cpu'')
     (snd (app example_env (example_session u) (example_world ''cpu'')))) =
   pipeline_calls (new_events (example_world ''cpu'')
     (snd (generate_image example_env
        (ui_request (example_session u)
           [''EulerAncestralDiscreteScheduler'', ''DDIMScheduler'', ''PNDMScheduler'']
           (convert ''RGB'' \<lparr>im_size = (512, 512 + 256 * int u), im_mode = ''RGB'', im_data = Decoded u\<rparr>)
           (ui_mask (convert ''RGB'' \<lparr>im_size = (512, 512 + 256 * int u), im_mode = ''RGB'', im_data = Decoded u\<rparr>)
              \<lparr>im_size = (768, 768), im_mode = ''L'', im_data = Channel 0 3\<rparr>))
        (example_world ''cpu''))))"
proof -
  have o: "Image_open example_env u =
      Inr \<lparr>im_size = (512, 512 + 256 * int u), im_mode = ''RGB'', im_data = Decoded u\<rparr>"
    by (simp add: example_env_def)
  have s: "submitted (inpainting_canvas (example_session u)) pil (inpainting_submit (example_session u)) =
      Inr (Some \<lparr>rows = 768, cols = 768, channels = 4, buffer = 0\<rparr>)" for pil
    by (simp add: submitted_def getitem_def example_session_def)
  have f: "fromarray_channel \<lparr>rows = 768, cols = 768, channels = 4, buffer = 0\<rparr> 3 =
      Inr \<lparr>im_size = (768, 768), im_mode = ''L'', im_data = Channel 0 3\<rparr>"
    by (simp add: fromarray_channel_def)
  have uf: "inpainting_uploaded_file (example_session u) = Some u"
    by (simp add: example_session_def)
  show ?thesis
    by (rule app_submitted(1) [OF example_available uf o s f])
qed

lemma example_page_saved:
  "saved (new_events (example_world ''cpu'')
     (snd (app example_env (example_session u) (example_world ''cpu'')))) =
   saved (new_events (example_world ''cpu'')
     (snd (generate_image example_env
        (ui_request (example_session u)
           [''EulerAncestralDiscreteScheduler'', ''DDIMScheduler'', ''PNDMScheduler'']
           (convert ''RGB'' \<lparr>im_size = (512, 512 + 256 * int u), im_mode = ''RGB'', im_data = Decoded u\<rparr>)
           (ui_mask (convert ''RGB'' \<lparr>im_size = (512, 512 + 256 * int u), im_mode = ''RGB'', im_data = Decoded u\<rparr>)
              \<lparr>im_size = (768, 768), im_mode = ''L'', im_data = Channel 0 3\<rparr>))
        (example_world ''cpu''))))"
proof -
  have o: "Image_open example_env u =
      Inr \<lparr>im_size = (512, 512 + 256 * int u), im_mode = ''RGB'', im_data = Decoded u\<rparr>"
    by (simp add: example_env_def)
  have s: "submitted (inpainting_canvas (example_session u)) pil (inpainting_submit (example_session u)) =
      Inr (Some \<lparr>rows = 768, cols = 768, channels = 4, buffer = 0\<rparr>)" for pil
    by (simp add: submitted_def getitem_def example_session_def)
  have f: "fromarray_channel \<lparr>rows = 768, cols = 768, channels = 4, buffer = 0\<rparr> 3 =
      Inr \<lparr>im_size = (768, 768), im_mode = ''L'', im_data = Channel 0 3\<rparr>"
    by (simp add: fromarray_channel_def)
  have uf: "inpainting_uploaded_file (example_session u) = Some u"
    by (simp add: example_session_def)
  show ?thesis
    by (rule app_submitted(2) [OF example_available uf o s f])
qed

section \<open>Claims\<close>

text \<open>
  C1, amended. The JSON record that \<open>generate_image\<close> embeds and returns holds the
  prompt, the negative prompt, the guidance scale, the scheduler name, the step count
  and the seed supplied to the call, and no other parameter. When the call returns, the
  serialised record is the text of the returned PngInfo under the key "inpainting", and
  the same text went to \<open>save_images\<close> together with the returned images.
\<close>

theorem metadata_record:
  assumes "generate_image E r w = (Inr (ims, info), w')"
  shows "info =
           [(''inpainting'',
             Dumps [(''prompt'', JStr (prompt r)),
                    (''negative_prompt'', JStr (negative_prompt r)),
                    (''guidance_scale'', JFloat (guidance_scale r)),
                    (''scheduler'', json_name (scheduler_name r)),
                    (''steps'', JInt (steps r)),
                    (''seed'', JInt (seed r))])]
         \<and> map (\<lambda>(saved_ims, module, text, out). (saved_ims, text)) (saved (new_events w w')) =
             [(ims, snd (hd info))]"
  using generate_image_success [OF assms] by (simp add: metadata_dict_def)

theorem metadata_record_witness:
  "generate_image example_env example_request (example_world ''cpu'') =
     (Inr (example_output (call_kwargs example_request (DeviceGenerator (Some ''cpu'') 42) 2),
           [(''inpainting'',
             Dumps [(''prompt'', JStr ''a red fox''),
                    (''negative_prompt'', JStr ''blurry''),
                    (''guidance_scale'', JFloat 7.5),
                    (''scheduler'', JStr ''DDIMScheduler''),
                    (''steps'', JInt 50),
                    (''seed'', JInt 42)])]),
      snd (generate_image example_env example_request (example_world ''cpu'')))"
proof -
  have sn: "scheduler_name example_request = Some ''DDIMScheduler''"
    by (simp add: example_request_def)
  have ex: "\<exists>ims info. fst (generate_image example_env example_request (example_world ''cpu'')) = Inr (ims, info)
     \<and> ims = example_output (call_kwargs example_request (DeviceGenerator (Some ''cpu'') 42) 2)"
    by (simp add: generate_image_run sn example_run_ddim Let_def choose_generator_def)
       (simp add: example_env_def example_world_def example_obj_def example_request_def)
  then obtain ims info where
    g: "generate_image example_env example_request (example_world ''cpu'') =
          (Inr (ims, info), snd (generate_image example_env example_request (example_world ''cpu'')))"
    and i: "ims = example_output (call_kwargs example_request (DeviceGenerator (Some ''cpu'') 42) 2)"
    by (metis prod.collapse)
  from metadata_record [OF g] have "info = [(''inpainting'',
             Dumps [(''prompt'', JStr ''a red fox''),
                    (''negative_prompt'', JStr ''blurry''),
                    (''guidance_scale'', JFloat 7.5),
                    (''scheduler'', JStr ''DDIMScheduler''),
                    (''steps'', JInt 50),
                    (''seed'', JInt 42)])]"
    by (simp add: example_request_def json_name_def)
  with g i show ?thesis by simp
qed

text \<open>
  C1 as stated, that the record equals the parameters supplied, fails: two calls that
  differ in height, width and image count embed and return the same record, which has
  no entry for any of the three.
\<close>

theorem metadata_roundtrip_counterexample:
  "map_sum id snd (fst (generate_image example_env example_request (example_world ''cpu''))) =
     Inr [(''inpainting'',
           Dumps [(''prompt'', JStr ''a red fox''),
                  (''negative_prompt'', JStr ''blurry''),
                  (''guidance_scale'', JFloat 7.5),
                  (''scheduler'', JStr ''DDIMScheduler''),
                  (''steps'', JInt 50),
                  (''seed'', JInt 42)])]
   \<and> map_sum id snd (fst (generate_image example_env
         (example_request\<lparr>height := 768, width := 768, num_images := 4\<rparr>) (example_world ''cpu''))) =
     Inr [(''inpainting'',
           Dumps [(''prompt'', JStr ''a red fox''),
                  (''negative_prompt'', JStr ''blurry''),
                  (''guidance_scale'', JFloat 7.5),
                  (''scheduler'', JStr ''DDIMScheduler''),
                  (''steps'', JInt 50),
                  (''seed'', JInt 42)])]
   \<and> (height example_request, width example_request, num_images example_request) = (512, 512, 2)"
proof -
  have a: "map_sum id snd (fst (generate_image example_env r (example_world ''cpu''))) =
     Inr [(''inpainting'', Dumps (metadata_dict r))]"
    if "scheduler_name r = Some ''DDIMScheduler''" for r
    by (simp add: generate_image_run that example_run_ddim Let_def choose_generator_def)
       (simp add: example_env_def)
  show ?thesis
    by (simp add: a example_request_def metadata_dict_def json_name_def)
qed

text \<open>
  C2. The mask passed to inference should have the pixel dimensions of the uploaded
  image. For an upload 512 wide and 768 high, with one stroke on the canvas and Generate
  pressed, the page calls the pipeline with the image of size (512, 768), a mask of
  size (768, 512), height 512 and width 768: line 147 unpacks PIL's (width, height) as
  \<open>img_height, img_width\<close>, and line 171 passes \<open>(img_width, img_height)\<close> as the
  size to resize to.
\<close>

theorem mask_size_transposed:
  "map (im_size \<circ> kw_image \<circ> snd)
     (pipeline_calls (new_events (example_world ''cpu'')
        (snd (app example_env (example_session 1) (example_world ''cpu''))))) = [(512, 768)]
   \<and> map (im_size \<circ> kw_mask_image \<circ> snd)
     (pipeline_calls (new_events (example_world ''cpu'')
        (snd (app example_env (example_session 1) (example_world ''cpu''))))) = [(768, 512)]
   \<and> map (kw_height \<circ> snd)
     (pipeline_calls (new_events (example_world ''cpu'')
        (snd (app example_env (example_session 1) (example_world ''cpu''))))) = [Some 512]
   \<and> map (kw_width \<circ> snd)
     (pipeline_calls (new_events (example_world ''cpu'')
        (snd (app example_env (example_session 1) (example_world ''cpu''))))) = [Some 768]"
  unfolding example_page_calls
  by (simp add: generate_image_calls example_page_scheduler example_run_euler)
    (simp add: example_env_def call_kwargs_def ui_request_def ui_mask_def convert_def resize_def)

text \<open>
  C3, amended. Once the scheduler is set and torch has made the generator,
  \<open>generate_image\<close> calls the pipeline exactly once, on the pipeline carrying the new
  scheduler; before that it calls it not at all. In that call the prompt, negative
  prompt, image, mask, step count, guidance scale, height and width are the supplied
  ones; the image count is the supplied one unless the device is "mps", where it is 1;
  and the generator is seeded with the supplied seed, by \<^verbatim>\<open>torch.manual_seed\<close> on
  "mps" and by a generator made for the device otherwise.
\<close>

theorem parameter_forwarding:
  "pipeline_calls (new_events w (snd (generate_image E r w))) =
     (if fst (set_scheduler E (scheduler_name r) w) = Inr ()
         \<and> torch_generator E (if device (obj w) = Some ''mps'' then DefaultGenerator (seed r)
                               else DeviceGenerator (device (obj w)) (seed r)) = None
      then [(pipeline (obj (snd (set_scheduler E (scheduler_name r) w))),
             \<lparr>kw_prompt = prompt r,
              kw_negative_prompt = Some (negative_prompt r),
              kw_image = image r,
              kw_mask_image = mask r,
              kw_num_inference_steps = steps r,
              kw_guidance_scale = Some (guidance_scale r),
              kw_num_images_per_prompt =
                Some (if device (obj w) = Some ''mps'' then 1 else num_images r),
              kw_generator =
                Some (if device (obj w) = Some ''mps'' then DefaultGenerator (seed r)
                      else DeviceGenerator (device (obj w)) (seed r)),
              kw_height = Some (height r),
              kw_width = Some (width r)\<rparr>)]
      else [])"
  by (cases "set_scheduler E (scheduler_name r) w")
    (auto simp: generate_image_calls call_kwargs_def choose_generator_def
      split: sum.splits option.splits)

theorem parameter_forwarding_witness:
  "fst (set_scheduler example_env (scheduler_name example_request) (example_world ''cuda'')) = Inr ()
   \<and> torch_generator example_env (DeviceGenerator (Some ''cuda'') 42) = None
   \<and> map snd (pipeline_calls (new_events (example_world ''cuda'')
            (snd (generate_image example_env example_request (example_world ''cuda''))))) =
     [\<lparr>kw_prompt = ''a red fox'',
       kw_negative_prompt = Some ''blurry'',
       kw_image = example_image,
       kw_mask_image = example_mask,
       kw_num_inference_steps = 50,
       kw_guidance_scale = Some 7.5,
       kw_num_images_per_prompt = Some 2,
       kw_generator = Some (DeviceGenerator (Some ''cuda'') 42),
       kw_height = Some 512,
       kw_width = Some 512\<rparr>]
   \<and> map (kw_generator \<circ> snd) (pipeline_calls (new_events (example_world ''mps'')
            (snd (generate_image example_env example_request (example_world ''mps''))))) =
     [Some (DefaultGenerator 42)]"
proof -
  have sn: "scheduler_name example_request = Some ''DDIMScheduler''"
    by (simp add: example_request_def)
  have s: "fst (set_scheduler example_env (scheduler_name example_request) (example_world dev)) = Inr ()" for dev
    by (simp add: sn example_run_ddim)
  have t: "torch_generator example_env g = None" for g
    by (simp add: example_env_def)
  have d: "device (obj (example_world dev)) = Some dev" for dev
    by (simp add: example_world_def example_obj_def)
  from parameter_forwarding [of "example_world ''cuda''" example_env example_request]
    parameter_forwarding [of "example_world ''mps''" example_env example_request]
  show ?thesis
    by (simp add: s t d) (simp add: example_request_def)
qed

text \<open>
  C3 as stated, that the image count is forwarded unchanged, fails on "mps": with
  \<open>num_images = 4\<close> the one call made does not carry the supplied count.
\<close>

theorem parameter_forwarding_counterexample:
  "map (kw_num_images_per_prompt \<circ> snd)
     (pipeline_calls (new_events (example_world ''mps'')
        (snd (generate_image example_env (example_request\<lparr>num_images := 4\<rparr>) (example_world ''mps'')))))
   = [Some 1]
   \<and> num_images (example_request\<lparr>num_images := 4\<rparr>) = 4"
proof -
  have sn: "scheduler_name (example_request\<lparr>num_images := 4\<rparr>) = Some ''DDIMScheduler''"
    by (simp add: example_request_def)
  show ?thesis
    by (simp add: generate_image_calls sn example_run_ddim)
       (simp add: example_env_def call_kwargs_def choose_generator_def example_world_def example_obj_def)
qed

text \<open>
  C4. For every scheduler name in the compatibility set, setting the scheduler twice in
  a row with that name leaves the same result and the same state, the pipeline's
  scheduler included, as setting it once.
\<close>

theorem set_scheduler_idempotent:
  assumes "n \<in> fst ` set (compatible_schedulers (obj w))"
  shows "(case set_scheduler E (Some n) w of
            (Inl e, w1) \<Rightarrow> (Inl e, w1)
          | (Inr u, w1) \<Rightarrow> set_scheduler E (Some n) w1) = set_scheduler E (Some n) w"
  by (simp add: set_scheduler_def split: sum.splits)

theorem set_scheduler_idempotent_witness:
  "''PNDMScheduler'' \<in> fst ` set (compatible_schedulers (obj (example_world ''cpu'')))
   \<and> fst (set_scheduler example_env (Some ''PNDMScheduler'') (example_world ''cpu'')) = Inr ()
   \<and> (case set_scheduler example_env (Some ''PNDMScheduler'') (example_world ''cpu'') of
            (Inl e, w1) \<Rightarrow> (Inl e, w1)
          | (Inr u, w1) \<Rightarrow> set_scheduler example_env (Some ''PNDMScheduler'') w1)
       = set_scheduler example_env (Some ''PNDMScheduler'') (example_world ''cpu'')"
proof -
  have h: "''PNDMScheduler'' \<in> fst ` set (compatible_schedulers (obj (example_world ''cpu'')))"
    by (simp add: example_world_def example_obj_def)
  have "fst (set_scheduler example_env (Some ''PNDMScheduler'') (example_world ''cpu'')) = Inr ()"
    by (simp add: set_scheduler_def getitem_def example_world_def example_obj_def example_env_def)
  with h set_scheduler_idempotent [OF h, of example_env] show ?thesis
    by simp
qed

text \<open>
  C5. The selectable schedulers and the scheduler configuration are fixed at
  construction from what the loaded pipeline's scheduler reports, and
  \<open>generate_image\<close> and \<open>app\<close> leave both as they are. On every call of
  \<open>generate_image\<close> with a name of the dict, the scheduler that the named class
  makes from that configuration is installed on the pipeline, whatever happens later
  in the call, and the call of the pipeline, if torch has made the generator, is made
  on the pipeline carrying it. No call of the pipeline is made without it. The call
  changes nothing in the object but the pipeline's current scheduler.
\<close>

theorem scheduler_lifecycle:
  "(post_init E mdl dev out tr = (Inr self, tr') \<longrightarrow>
      (\<exists>p0. from_pretrained E mdl (if dev = Some ''cuda'' then Float16 else Float32) = Inr p0
         \<and> compatible_schedulers_list self = compatibles (scheduler p0)
         \<and> compatible_schedulers self = dict_by_name (compatibles (scheduler p0))
         \<and> scheduler_config self = config (scheduler p0)))
   \<and> (getitem (compatible_schedulers (obj w)) (scheduler_name r) = Inr cls
        \<and> from_config E cls (scheduler_config (obj w)) = Inr sch \<longrightarrow>
        obj (snd (generate_image E r w)) =
          (obj w)\<lparr>pipeline := (pipeline (obj w))\<lparr>scheduler := sch\<rparr>\<rparr>
        \<and> pipeline_calls (new_events w (snd (generate_image E r w))) =
            (case torch_generator E (fst (choose_generator (device (obj w)) (seed r) (num_images r))) of
               Some e \<Rightarrow> []
             | None \<Rightarrow>
                 [((pipeline (obj w))\<lparr>scheduler := sch\<rparr>,
                   call_kwargs r (fst (choose_generator (device (obj w)) (seed r) (num_images r)))
                     (snd (choose_generator (device (obj w)) (seed r) (num_images r))))]))
   \<and> (\<forall>(p, kw) \<in> set (pipeline_calls (new_events w (snd (generate_image E r w)))).
        \<exists>cls. getitem (compatible_schedulers (obj w)) (scheduler_name r) = Inr cls
           \<and> from_config E cls (scheduler_config (obj w)) = Inr (scheduler p)
           \<and> p = (pipeline (obj w))\<lparr>scheduler := scheduler p\<rparr>)
   \<and> compatible_schedulers (obj (snd (generate_image E r w))) = compatible_schedulers (obj w)
   \<and> scheduler_config (obj (snd (generate_image E r w))) = scheduler_config (obj w)
   \<and> compatible_schedulers (obj (snd (app E ss w))) = compatible_schedulers (obj w)
   \<and> scheduler_config (obj (snd (app E ss w))) = scheduler_config (obj w)
   \<and> obj (snd (generate_image E r w)) =
       (obj w)\<lparr>pipeline := (pipeline (obj w))
          \<lparr>scheduler := scheduler (pipeline (obj (snd (generate_image E r w))))\<rparr>\<rparr>"
proof (intro conjI impI)
  assume "post_init E mdl dev out tr = (Inr self, tr')"
  then show "\<exists>p0. from_pretrained E mdl (if dev = Some ''cuda'' then Float16 else Float32) = Inr p0
         \<and> compatible_schedulers_list self = compatibles (scheduler p0)
         \<and> compatible_schedulers self = dict_by_name (compatibles (scheduler p0))
         \<and> scheduler_config self = config (scheduler p0)"
    by (rule post_init_schedulers)
next
  assume a: "getitem (compatible_schedulers (obj w)) (scheduler_name r) = Inr cls
        \<and> from_config E cls (scheduler_config (obj w)) = Inr sch"
  then have s: "set_scheduler E (scheduler_name r) w =
       (Inr (), w\<lparr>obj := (obj w)\<lparr>pipeline := (pipeline (obj w))\<lparr>scheduler := sch\<rparr>\<rparr>\<rparr>)"
    by (simp add: set_scheduler_success)
  show "obj (snd (generate_image E r w)) =
          (obj w)\<lparr>pipeline := (pipeline (obj w))\<lparr>scheduler := sch\<rparr>\<rparr>"
    by (simp add: generate_image_obj s)
  show "pipeline_calls (new_events w (snd (generate_image E r w))) =
            (case torch_generator E (fst (choose_generator (device (obj w)) (seed r) (num_images r))) of
               Some e \<Rightarrow> []
             | None \<Rightarrow>
                 [((pipeline (obj w))\<lparr>scheduler := sch\<rparr>,
                   call_kwargs r (fst (choose_generator (device (obj w)) (seed r) (num_images r)))
                     (snd (choose_generator (device (obj w)) (seed r) (num_images r))))])"
    by (simp add: generate_image_calls s split: option.splits)
next
  show "compatible_schedulers (obj (snd (generate_image E r w))) = compatible_schedulers (obj w)"
    by (simp add: generate_image_obj set_scheduler_keeps)
  show "scheduler_config (obj (snd (generate_image E r w))) = scheduler_config (obj w)"
    by (simp add: generate_image_obj set_scheduler_keeps)
  show "compatible_schedulers (obj (snd (app E ss w))) = compatible_schedulers (obj w)"
    by (rule app_keeps)
  show "scheduler_config (obj (snd (app E ss w))) = scheduler_config (obj w)"
    by (rule app_keeps)
  show "obj (snd (generate_image E r w)) =
       (obj w)\<lparr>pipeline := (pipeline (obj w))
          \<lparr>scheduler := scheduler (pipeline (obj (snd (generate_image E r w))))\<rparr>\<rparr>"
    using set_scheduler_frame [of E "scheduler_name r" w] by (simp add: generate_image_obj)
  show "\<forall>(p, kw) \<in> set (pipeline_calls (new_events w (snd (generate_image E r w)))).
        \<exists>cls. getitem (compatible_schedulers (obj w)) (scheduler_name r) = Inr cls
           \<and> from_config E cls (scheduler_config (obj w)) = Inr (scheduler p)
           \<and> p = (pipeline (obj w))\<lparr>scheduler := scheduler p\<rparr>"
  proof (cases "set_scheduler E (scheduler_name r) w")
    case (Pair res w1)
    show ?thesis
    proof (cases res)
      case (Inl e)
      with Pair show ?thesis by (simp add: generate_image_calls)
    next
      case (Inr u)
      with Pair have s: "set_scheduler E (scheduler_name r) w = (Inr u, w1)" by simp
      from set_scheduler_installs [OF s] obtain cls where
        "getitem (compatible_schedulers (obj w)) (scheduler_name r) = Inr cls"
        "from_config E cls (scheduler_config (obj w)) = Inr (scheduler (pipeline (obj w1)))"
        by blast
      moreover have "pipeline (obj w1) = (pipeline (obj w))\<lparr>scheduler := scheduler (pipeline (obj w1))\<rparr>"
        using set_scheduler_pipeline [of E "scheduler_name r" w] s by simp
      ultimately show ?thesis
        using s by (simp add: generate_image_calls split: option.splits)
    qed
  qed
qed

theorem scheduler_lifecycle_witness:
  "post_init example_env (Some ''runwayml/stable-diffusion-inpainting'') (Some ''cpu'') (Some ''out'') [] =
     (Inr (example_obj ''cpu''), [])
   \<and> compatible_schedulers (example_obj ''cpu'') = dict_by_name example_classes
   \<and> scheduler_config (example_obj ''cpu'') = example_config
   \<and> getitem (compatible_schedulers (obj (example_world ''cpu''))) (scheduler_name example_request) =
       Inr (SchedClass ''DDIMScheduler'' 0)
   \<and> from_config example_env (SchedClass ''DDIMScheduler'' 0) (scheduler_config (obj (example_world ''cpu''))) =
       Inr \<lparr>sched_cls = SchedClass ''DDIMScheduler'' 0, config = example_config,
            compatibles = example_classes\<rparr>
   \<and> scheduler (pipeline (obj (snd (generate_image example_env example_request (example_world ''cpu''))))) =
       \<lparr>sched_cls = SchedClass ''DDIMScheduler'' 0, config = example_config,
        compatibles = example_classes\<rparr>
   \<and> map (scheduler \<circ> fst)
       (pipeline_calls (new_events (example_world ''cpu'')
          (snd (generate_image example_env example_request (example_world ''cpu'')))))
     = [\<lparr>sched_cls = SchedClass ''DDIMScheduler'' 0, config = example_config,
         compatibles = example_classes\<rparr>]
   \<and> scheduler (pipeline (obj (snd (generate_image example_env example_request (example_world ''mps''))))) =
       \<lparr>sched_cls = SchedClass ''DDIMScheduler'' 0, config = example_config,
        compatibles = example_classes\<rparr>"
proof -
  let ?sch = "\<lparr>sched_cls = SchedClass ''DDIMScheduler'' 0, config = example_config,
            compatibles = example_classes\<rparr>"
  have sn: "scheduler_name example_request = Some ''DDIMScheduler''"
    by (simp add: example_request_def)
  have g: "getitem (compatible_schedulers (obj (example_world ''cpu''))) (scheduler_name example_request)
      = Inr (SchedClass ''DDIMScheduler'' 0)"
    by (simp add: getitem_def example_world_def example_obj_def sn)
  have f: "from_config example_env (SchedClass ''DDIMScheduler'' 0)
      (scheduler_config (obj (example_world ''cpu''))) = Inr ?sch"
    by (simp add: example_env_def example_world_def example_obj_def)
  have t: "torch_generator example_env gen = None" for gen
    by (simp add: example_env_def)
  have fp: "from_pretrained example_env m d = Inr example_pipeline" for m d
    by (simp add: example_env_def)
  note life = scheduler_lifecycle [of example_env "Some ''runwayml/stable-diffusion-inpainting''"
      "Some ''cpu''" "Some ''out''" "[]" "example_obj ''cpu''" "[]" "example_world ''cpu''"
      example_request "SchedClass ''DDIMScheduler'' 0" ?sch]
  from life post_init_example obtain p0 where
    "from_pretrained example_env (Some ''runwayml/stable-diffusion-inpainting'')
       (if Some ''cpu'' = Some ''cuda'' then Float16 else Float32) = Inr p0"
    "compatible_schedulers (example_obj ''cpu'') = dict_by_name (compatibles (scheduler p0))"
    "scheduler_config (example_obj ''cpu'') = config (scheduler p0)"
    by blast
  then have a: "compatible_schedulers (example_obj ''cpu'') = dict_by_name example_classes"
    and b: "scheduler_config (example_obj ''cpu'') = example_config"
    by (auto simp: fp example_pipeline_def)
  from life g f have
    c: "obj (snd (generate_image example_env example_request (example_world ''cpu''))) =
          (obj (example_world ''cpu''))\<lparr>pipeline := (pipeline (obj (example_world ''cpu'')))\<lparr>scheduler := ?sch\<rparr>\<rparr>"
    and d: "pipeline_calls (new_events (example_world ''cpu'')
          (snd (generate_image example_env example_request (example_world ''cpu'')))) =
        [((pipeline (obj (example_world ''cpu'')))\<lparr>scheduler := ?sch\<rparr>,
          call_kwargs example_request
            (fst (choose_generator (device (obj (example_world ''cpu''))) (seed example_request) (num_images example_request)))
            (snd (choose_generator (device (obj (example_world ''cpu''))) (seed example_request) (num_images example_request))))]"
    by (simp_all add: t)
  have g': "getitem (compatible_schedulers (obj (example_world ''mps''))) (scheduler_name example_request)
      = Inr (SchedClass ''DDIMScheduler'' 0)"
    by (simp add: getitem_def example_world_def example_obj_def sn)
  have f': "from_config example_env (SchedClass ''DDIMScheduler'' 0)
      (scheduler_config (obj (example_world ''mps''))) = Inr ?sch"
    by (simp add: example_env_def example_world_def example_obj_def)
  from scheduler_lifecycle [of example_env "Some ''runwayml/stable-diffusion-inpainting''"
      "Some ''cpu''" "Some ''out''" "[]" "example_obj ''cpu''" "[]" "example_world ''mps''"
      example_request "SchedClass ''DDIMScheduler'' 0" ?sch] g' f'
  have m: "obj (snd (generate_image example_env example_request (example_world ''mps''))) =
          (obj (example_world ''mps''))\<lparr>pipeline := (pipeline (obj (example_world ''mps'')))\<lparr>scheduler := ?sch\<rparr>\<rparr>"
    by simp
  from a b c d g f m post_init_example show ?thesis
    by simp
qed

text \<open>
  C6. The fields \<open>model\<close>, \<open>device\<close> and \<open>output_path\<close> are the values given at
  construction, and \<open>_set_scheduler\<close>, \<open>generate_image\<close> and \<open>app\<close> leave them as they
  are; \<open>__str__\<close> only reads them.
\<close>

theorem configuration_immutable:
  "(post_init E mdl dev out tr = (Inr self, tr') \<longrightarrow>
      model self = mdl \<and> device self = dev \<and> output_path self = out)
   \<and> model (obj (snd (set_scheduler E n w))) = model (obj w)
   \<and> device (obj (snd (set_scheduler E n w))) = device (obj w)
   \<and> output_path (obj (snd (set_scheduler E n w))) = output_path (obj w)
   \<and> model (obj (snd (generate_image E r w))) = model (obj w)
   \<and> device (obj (snd (generate_image E r w))) = device (obj w)
   \<and> output_path (obj (snd (generate_image E r w))) = output_path (obj w)
   \<and> model (obj (snd (app E ss w))) = model (obj w)
   \<and> device (obj (snd (app E ss w))) = device (obj w)
   \<and> output_path (obj (snd (app E ss w))) = output_path (obj w)
   \<and> str_inpainting (obj w) =
       ''Inpainting(model='' @ format_opt (model (obj w)) @ '', device='' @ format_opt (device (obj w))
         @ '', output_path='' @ format_opt (output_path (obj w)) @ '')''"
  using post_init_config [of E mdl dev out tr self tr']
  by (simp add: set_scheduler_model set_scheduler_device set_scheduler_output_path
      generate_image_config app_config str_inpainting_def)

theorem configuration_immutable_witness:
  "post_init example_env (Some ''runwayml/stable-diffusion-inpainting'') (Some ''cpu'') (Some ''out'') [] =
     (Inr (example_obj ''cpu''), [])
   \<and> model (example_obj ''cpu'') = Some ''runwayml/stable-diffusion-inpainting''
   \<and> device (example_obj ''cpu'') = Some ''cpu''
   \<and> output_path (example_obj ''cpu'') = Some ''out''
   \<and> model (obj (snd (generate_image example_env example_request (example_world ''cpu'')))) =
       Some ''runwayml/stable-diffusion-inpainting''
   \<and> device (obj (snd (app example_env (example_session 0) (example_world ''cpu'')))) = Some ''cpu''"
  using configuration_immutable [of example_env "Some ''runwayml/stable-diffusion-inpainting''"
      "Some ''cpu''" "Some ''out''" "[]" "example_obj ''cpu''" "[]" "Some ''DDIMScheduler''"
      "example_world ''cpu''" example_request "example_session 0"]
    post_init_example
  by (simp add: example_world_def)

text \<open>
  C7. With a scheduler name that is not in the compatibility set, \<open>_set_scheduler\<close>
  raises KeyError, and so does \<open>generate_image\<close>, with the world as it was: no call
  of the pipeline, nothing saved. No operation catches a failure: in
  \<open>_set_scheduler\<close> the lookup and \<open>from_config\<close>; in \<open>generate_image\<close> the
  scheduler swap, the generator, the pipeline and \<open>save_images\<close>; in \<open>app\<close> the
  opening of the upload, the canvas condition, the alpha slice, \<open>generate_image\<close> and
  the display; in \<open>__post_init__\<close> the loading and placing of the model, the two
  downloads and the warm-up call. When one of them raises, the operation leaves with
  that exception, and nothing is saved after a failure of the generator or of the
  pipeline. Conversely every exception that leaves \<open>generate_image\<close> is the one
  raised by the lookup or by a library, untranslated.
\<close>

theorem error_propagation:
  "(n \<notin> Some ` fst ` set (compatible_schedulers (obj w)) \<longrightarrow>
      set_scheduler E n w = (Inl (KeyError n), w)
      \<and> generate_image E (r\<lparr>scheduler_name := n\<rparr>) w = (Inl (KeyError n), w))
   \<and> (getitem (compatible_schedulers (obj w)) n = Inl e \<longrightarrow> set_scheduler E n w = (Inl e, w))
   \<and> (getitem (compatible_schedulers (obj w)) n = Inr cls
        \<and> from_config E cls (scheduler_config (obj w)) = Inl e \<longrightarrow>
        set_scheduler E n w = (Inl e, w))
   \<and> (fst (set_scheduler E (scheduler_name r) w) = Inl e \<longrightarrow> generate_image E r w = (Inl e, w))
   \<and> (fst (set_scheduler E (scheduler_name r) w) = Inr ()
        \<and> torch_generator E (fst (choose_generator (device (obj w)) (seed r) (num_images r))) = Some e \<longrightarrow>
        fst (generate_image E r w) = Inl e
        \<and> pipeline_calls (new_events w (snd (generate_image E r w))) = []
        \<and> saved (new_events w (snd (generate_image E r w))) = [])
   \<and> (fst (set_scheduler E (scheduler_name r) w) = Inr ()
        \<and> torch_generator E (fst (choose_generator (device (obj w)) (seed r) (num_images r))) = None
        \<and> pipeline_call E (pipeline (obj (snd (set_scheduler E (scheduler_name r) w))))
             (call_kwargs r (fst (choose_generator (device (obj w)) (seed r) (num_images r)))
                (snd (choose_generator (device (obj w)) (seed r) (num_images r)))) = Inl e \<longrightarrow>
        fst (generate_image E r w) = Inl e
        \<and> saved (new_events w (snd (generate_image E r w))) = [])
   \<and> (fst (set_scheduler E (scheduler_name r) w) = Inr ()
        \<and> torch_generator E (fst (choose_generator (device (obj w)) (seed r) (num_images r))) = None
        \<and> pipeline_call E (pipeline (obj (snd (set_scheduler E (scheduler_name r) w))))
             (call_kwargs r (fst (choose_generator (device (obj w)) (seed r) (num_images r)))
                (snd (choose_generator (device (obj w)) (seed r) (num_images r)))) = Inr ims
        \<and> save_images E ims ''inpainting'' (Dumps (metadata_dict r)) (output_path (obj w)) = Some e \<longrightarrow>
        fst (generate_image E r w) = Inl e)
   \<and> (fst (generate_image E r w) = Inl e \<longrightarrow>
        getitem (compatible_schedulers (obj w)) (scheduler_name r) = Inl e
        \<or> (\<exists>c. from_config E c (scheduler_config (obj w)) = Inl e)
        \<or> (\<exists>g. torch_generator E g = Some e)
        \<or> (\<exists>p kw. pipeline_call E p kw = Inl e)
        \<or> (\<exists>xs t out. save_images E xs ''inpainting'' t out = Some e))
   \<and> (inpainting_uploaded_file ss = Some u \<longrightarrow>
        (Image_open E u = Inl e \<longrightarrow> app E ss w = (Inl e, w))
        \<and> (Image_open E u = Inr opened \<longrightarrow>
             (submitted (inpainting_canvas ss) (convert ''RGB'' opened) (inpainting_submit ss) = Inl e \<longrightarrow>
                app E ss w = (Inl e, w))
             \<and> (submitted (inpainting_canvas ss) (convert ''RGB'' opened) (inpainting_submit ss)
                  = Inr (Some arr) \<longrightarrow>
                  (fromarray_channel arr 3 = Inl e \<longrightarrow> app E ss w = (Inl e, w))
                  \<and> (fromarray_channel arr 3 = Inr m \<and> available_schedulers (obj w) = Inr av \<longrightarrow>
                       (fst (generate_image E
                              (ui_request ss av (convert ''RGB'' opened)
                                 (ui_mask (convert ''RGB'' opened) m)) w) = Inl e \<longrightarrow>
                          app E ss w =
                            (Inl e, snd (generate_image E
                               (ui_request ss av (convert ''RGB'' opened)
                                  (ui_mask (convert ''RGB'' opened) m)) w)))
                       \<and> (fst (generate_image E
                              (ui_request ss av (convert ''RGB'' opened)
                                 (ui_mask (convert ''RGB'' opened) m)) w) = Inr (outs, info)
                            \<and> display_and_download_images E outs info = Some e \<longrightarrow>
                            fst (app E ss w) = Inl e)))))
   \<and> (requests_get E url = Inl e \<longrightarrow> fst (download_image E url tr) = Inl e)
   \<and> (requests_get E url = Inr content \<and> Image_open E content = Inl e \<longrightarrow>
        fst (download_image E url tr) = Inl e)
   \<and> (from_pretrained E mdl (if dev = Some ''cuda'' then Float16 else Float32) = Inl e \<longrightarrow>
        post_init E mdl dev out tr = (Inl e, tr))
   \<and> (from_pretrained E mdl (if dev = Some ''cuda'' then Float16 else Float32) = Inr p0 \<longrightarrow>
        (pipeline_to E p0 dev = Some e \<longrightarrow> post_init E mdl dev out tr = (Inl e, tr))
        \<and> (pipeline_to E p0 dev = None \<and> dev = Some ''mps'' \<longrightarrow>
             (fst (download_image E img_url tr) = Inl e \<longrightarrow> fst (post_init E mdl dev out tr) = Inl e)
             \<and> (download_image E img_url tr = (Inr im, tr1) \<longrightarrow>
                  (fst (download_image E mask_url tr1) = Inl e \<longrightarrow>
                     fst (post_init E mdl dev out tr) = Inl e)
                  \<and> (download_image E mask_url tr1 = (Inr mk, tr2)
                       \<and> pipeline_call E
                            (p0\<lparr>pipe_device := dev, safety_checker := NoSafetyChecker,
                                attention_slicing := True\<rparr>)
                            (warmup_kwargs (resize (512, 512) None im) (resize (512, 512) None mk))
                          = Inl e \<longrightarrow>
                       fst (post_init E mdl dev out tr) = Inl e))))"
proof -
  have key: "n \<notin> Some ` fst ` set (compatible_schedulers (obj w)) \<longrightarrow>
      set_scheduler E n w = (Inl (KeyError n), w)
      \<and> generate_image E (r\<lparr>scheduler_name := n\<rparr>) w = (Inl (KeyError n), w)"
  proof
    assume h: "n \<notin> Some ` fst ` set (compatible_schedulers (obj w))"
    have s: "set_scheduler E n w = (Inl (KeyError n), w)"
      by (simp add: set_scheduler_def getitem_missing [OF h])
    then show "set_scheduler E n w = (Inl (KeyError n), w)
      \<and> generate_image E (r\<lparr>scheduler_name := n\<rparr>) w = (Inl (KeyError n), w)"
      by (simp add: generate_image_run)
  qed
  show ?thesis
    by (intro conjI impI; (elim conjE)?;
        (insert key,
         blast intro: set_scheduler_failure generate_image_raises(1,4) app_raises
             download_image_raises post_init_raises
           dest: generate_image_raises(2,3) generate_image_error_origin))
qed

theorem error_propagation_witness:
  "Some ''LMSDiscreteScheduler'' \<notin> Some ` fst ` set (compatible_schedulers (obj (example_world ''cpu'')))
   \<and> generate_image example_env (example_request\<lparr>scheduler_name := Some ''LMSDiscreteScheduler''\<rparr>)
         (example_world ''cpu'') =
       (Inl (KeyError (Some ''LMSDiscreteScheduler'')), example_world ''cpu'')
   \<and> fst (generate_image (example_env\<lparr>pipeline_call := (\<lambda>p kw. Inl (Raised ''out of memory''))\<rparr>)
            example_request (example_world ''cpu'')) = Inl (Raised ''out of memory'')
   \<and> saved (new_events (example_world ''cpu'')
        (snd (generate_image (example_env\<lparr>pipeline_call := (\<lambda>p kw. Inl (Raised ''out of memory''))\<rparr>)
            example_request (example_world ''cpu'')))) = []
   \<and> fst (generate_image (example_env\<lparr>save_images := (\<lambda>ims m t out. Some (Raised ''disk full''))\<rparr>)
            example_request (example_world ''cpu'')) = Inl (Raised ''disk full'')
   \<and> fst (generate_image (example_env\<lparr>torch_generator := (\<lambda>g. Some (Raised ''invalid device''))\<rparr>)
            example_request (example_world ''cpu'')) = Inl (Raised ''invalid device'')
   \<and> pipeline_calls (new_events (example_world ''cpu'')
        (snd (generate_image (example_env\<lparr>torch_generator := (\<lambda>g. Some (Raised ''invalid device''))\<rparr>)
            example_request (example_world ''cpu'')))) = []
   \<and> app (example_env\<lparr>Image_open := (\<lambda>u. Inl (Raised ''cannot identify image file''))\<rparr>)
         (example_session 0) (example_world ''cpu'') =
       (Inl (Raised ''cannot identify image file''), example_world ''cpu'')
   \<and> post_init (example_env\<lparr>from_pretrained := (\<lambda>m d. Inl (Raised ''no such model''))\<rparr>)
         (Some ''missing'') (Some ''cpu'') None [] =
       (Inl (Raised ''no such model''), [])"
proof -
  let ?W = "example_world ''cpu''"
  let ?oom = "example_env\<lparr>pipeline_call := (\<lambda>p kw. Inl (Raised ''out of memory''))\<rparr>"
  let ?full = "example_env\<lparr>save_images := (\<lambda>ims m t out. Some (Raised ''disk full''))\<rparr>"
  let ?bad = "example_env\<lparr>Image_open := (\<lambda>u. Inl (Raised ''cannot identify image file''))\<rparr>"
  let ?none = "example_env\<lparr>from_pretrained := (\<lambda>m d. Inl (Raised ''no such model''))\<rparr>"
  note c1 = error_propagation [THEN conjunct1, rule_format]
  note c6 = error_propagation [THEN conjunct2, THEN conjunct2, THEN conjunct2, THEN conjunct2,
      THEN conjunct2, THEN conjunct1, rule_format]
  note c7 = error_propagation [THEN conjunct2, THEN conjunct2, THEN conjunct2, THEN conjunct2,
      THEN conjunct2, THEN conjunct2, THEN conjunct1, rule_format]
  note c9 = error_propagation [THEN conjunct2, THEN conjunct2, THEN conjunct2, THEN conjunct2,
      THEN conjunct2, THEN conjunct2, THEN conjunct2, THEN conjunct2, THEN conjunct1, rule_format]
  note c12 = error_propagation [THEN conjunct2, THEN conjunct2, THEN conjunct2, THEN conjunct2,
      THEN conjunct2, THEN conjunct2, THEN conjunct2, THEN conjunct2, THEN conjunct2,
      THEN conjunct2, THEN conjunct2, THEN conjunct1, rule_format]
  have sn: "scheduler_name example_request = Some ''DDIMScheduler''"
    by (simp add: example_request_def)
  have s: "fst (set_scheduler E (Some ''DDIMScheduler'') ?W) = Inr ()"
    if "from_config E = from_config example_env" for E
    by (simp add: set_scheduler_def getitem_def example_world_def example_obj_def that)
      (simp add: example_env_def)
  have h: "Some ''LMSDiscreteScheduler'' \<notin> Some ` fst ` set (compatible_schedulers (obj ?W))"
    by (simp add: example_world_def example_obj_def)
  have a: "generate_image example_env (example_request\<lparr>scheduler_name := Some ''LMSDiscreteScheduler''\<rparr>) ?W =
       (Inl (KeyError (Some ''LMSDiscreteScheduler'')), ?W)"
    using c1 [OF h, of example_env example_request] by simp
  have "fst (set_scheduler ?oom (scheduler_name example_request) ?W) = Inr ()
        \<and> torch_generator ?oom (fst (choose_generator (device (obj ?W)) (seed example_request)
             (num_images example_request))) = None
        \<and> pipeline_call ?oom (pipeline (obj (snd (set_scheduler ?oom (scheduler_name example_request) ?W))))
             (call_kwargs example_request
                (fst (choose_generator (device (obj ?W)) (seed example_request) (num_images example_request)))
                (snd (choose_generator (device (obj ?W)) (seed example_request) (num_images example_request))))
           = Inl (Raised ''out of memory'')"
    by (simp add: sn s) (simp add: example_env_def)
  from c6 [OF this] have b: "fst (generate_image ?oom example_request ?W) = Inl (Raised ''out of memory'')
      \<and> saved (new_events ?W (snd (generate_image ?oom example_request ?W))) = []"
    by simp
  have "fst (set_scheduler ?full (scheduler_name example_request) ?W) = Inr ()
        \<and> torch_generator ?full (fst (choose_generator (device (obj ?W)) (seed example_request)
             (num_images example_request))) = None
        \<and> pipeline_call ?full (pipeline (obj (snd (set_scheduler ?full (scheduler_name example_request) ?W))))
             (call_kwargs example_request
                (fst (choose_generator (device (obj ?W)) (seed example_request) (num_images example_request)))
                (snd (choose_generator (device (obj ?W)) (seed example_request) (num_images example_request))))
           = Inr (example_output (call_kwargs example_request
                (fst (choose_generator (device (obj ?W)) (seed example_request) (num_images example_request)))
                (snd (choose_generator (device (obj ?W)) (seed example_request) (num_images example_request)))))
        \<and> save_images ?full (example_output (call_kwargs example_request
                (fst (choose_generator (device (obj ?W)) (seed example_request) (num_images example_request)))
                (snd (choose_generator (device (obj ?W)) (seed example_request) (num_images example_request)))))
             ''inpainting'' (Dumps (metadata_dict example_request)) (output_path (obj ?W))
           = Some (Raised ''disk full'')"
    by (simp add: sn s) (simp add: example_env_def)
  from c7 [OF this] have c: "fst (generate_image ?full example_request ?W) = Inl (Raised ''disk full'')"
    by simp
  let ?dev = "example_env\<lparr>torch_generator := (\<lambda>g. Some (Raised ''invalid device''))\<rparr>"
  note c5 = error_propagation [THEN conjunct2, THEN conjunct2, THEN conjunct2, THEN conjunct2,
      THEN conjunct1, rule_format]
  have "fst (set_scheduler ?dev (scheduler_name example_request) ?W) = Inr ()
        \<and> torch_generator ?dev (fst (choose_generator (device (obj ?W)) (seed example_request)
             (num_images example_request))) = Some (Raised ''invalid device'')"
    by (simp add: sn s)
  from c5 [OF this] have t: "fst (generate_image ?dev example_request ?W) = Inl (Raised ''invalid device'')
      \<and> pipeline_calls (new_events ?W (snd (generate_image ?dev example_request ?W))) = []"
    by simp
  have u: "inpainting_uploaded_file (example_session 0) = Some 0"
    by (simp add: example_session_def)
  have "Image_open ?bad 0 = Inl (Raised ''cannot identify image file'')"
    by simp
  from c9 [OF u, THEN conjunct1, rule_format, OF this]
  have d: "app ?bad (example_session 0) ?W = (Inl (Raised ''cannot identify image file''), ?W)"
    by simp
  have "from_pretrained ?none (Some ''missing'')
          (if Some ''cpu'' = Some ''cuda'' then Float16 else Float32) = Inl (Raised ''no such model'')"
    by simp
  from c12 [OF this] have e: "post_init ?none (Some ''missing'') (Some ''cpu'') None [] =
       (Inl (Raised ''no such model''), [])"
    by simp
  from h a b c t d e show ?thesis
    by simp
qed

text \<open>
  C8. Once the scheduler is set and torch has made the generator, \<open>generate_image\<close>
  makes one request to the pipeline: for exactly one image per prompt whenever the
  configured device is "mps", whatever \<open>num_images\<close> the caller supplied, and for the
  supplied \<open>num_images\<close> on every other device. Before that it makes no request.
\<close>

theorem mps_image_count_cap:
  "map (kw_num_images_per_prompt \<circ> snd)
       (pipeline_calls (new_events w (snd (generate_image E r w)))) =
     (if fst (set_scheduler E (scheduler_name r) w) = Inr ()
         \<and> torch_generator E (if device (obj w) = Some ''mps'' then DefaultGenerator (seed r)
                               else DeviceGenerator (device (obj w)) (seed r)) = None
      then [Some (if device (obj w) = Some ''mps'' then 1 else num_images r)]
      else [])"
  by (cases "set_scheduler E (scheduler_name r) w")
    (auto simp: generate_image_calls call_kwargs_def choose_generator_def
      split: sum.splits option.splits)

theorem mps_image_count_cap_witness:
  "fst (set_scheduler example_env (scheduler_name (example_request\<lparr>num_images := 4\<rparr>))
          (example_world ''mps'')) = Inr ()
   \<and> torch_generator example_env (DefaultGenerator 42) = None
   \<and> map (kw_num_images_per_prompt \<circ> snd)
       (pipeline_calls (new_events (example_world ''mps'')
         (snd (generate_image example_env (example_request\<lparr>num_images := 4\<rparr>)
                (example_world ''mps''))))) = [Some 1]
   \<and> map (kw_num_images_per_prompt \<circ> snd)
       (pipeline_calls (new_events (example_world ''cpu'')
         (snd (generate_image example_env (example_request\<lparr>num_images := 4\<rparr>)
                (example_world ''cpu''))))) = [Some 4]"
proof -
  have sn: "scheduler_name example_request = Some ''DDIMScheduler''"
    by (simp add: example_request_def)
  have s: "fst (set_scheduler example_env (Some ''DDIMScheduler'') (example_world dev)) = Inr ()" for dev
    by (simp add: example_run_ddim)
  have t: "torch_generator example_env g = None" for g
    by (simp add: example_env_def)
  have d: "device (obj (example_world dev)) = Some dev" for dev
    by (simp add: example_world_def example_obj_def)
  from mps_image_count_cap [of "example_world ''mps''" example_env "example_request\<lparr>num_images := 4\<rparr>"]
    mps_image_count_cap [of "example_world ''cpu''" example_env "example_request\<lparr>num_images := 4\<rparr>"]
  show ?thesis
    by (simp add: sn s t d)
qed

text \<open>
  C9. The scheduler list offered by the page is a permutation of the names of the
  compatibility set. If "EulerAncestralDiscreteScheduler" is among them it is moved to
  the front and is the default selection; otherwise the order is unchanged.
\<close>

theorem scheduler_list_order:
  "\<exists>av. available_schedulers self = Inr av
      \<and> mset av = mset (map fst (compatible_schedulers self))
      \<and> (if euler \<in> set (map fst (compatible_schedulers self))
         then av = euler # remove1 euler (map fst (compatible_schedulers self))
              \<and> selectbox av 0 = Some euler
         else av = map fst (compatible_schedulers self))
      \<and> (compatible_schedulers self = dict_by_name (compatible_schedulers_list self) \<longrightarrow>
           set av = cls_name ` set (compatible_schedulers_list self) \<and> distinct av)"
proof -
  define ks where "ks = map fst (compatible_schedulers self)"
  define av where "av = (if euler \<in> set ks then euler # remove1 euler ks else ks)"
  have av: "available_schedulers self = Inr av"
    unfolding av_def ks_def by (rule available_schedulers_eq)
  have ms: "mset av = mset ks"
    by (simp add: av_def)
  have "set av = cls_name ` set cs \<and> distinct av"
    if "compatible_schedulers self = dict_by_name cs" for cs
  proof -
    from that have "set ks = cls_name ` set cs" and "distinct ks"
      using dict_by_name_keys [of cs] dict_by_name_distinct [of cs] by (simp_all add: ks_def)
    with ms show ?thesis
      by (metis mset_eq_setD mset_eq_imp_distinct_iff)
  qed
  with av ms show ?thesis
    unfolding ks_def [symmetric] by (auto simp: av_def selectbox_def)
qed

theorem scheduler_list_order_witness:
  "compatible_schedulers (example_obj ''cpu'') = dict_by_name (compatible_schedulers_list (example_obj ''cpu''))
   \<and> map fst (compatible_schedulers (example_obj ''cpu'')) =
     [''DDIMScheduler'', ''EulerAncestralDiscreteScheduler'', ''PNDMScheduler'']
   \<and> available_schedulers (example_obj ''cpu'') =
     Inr [''EulerAncestralDiscreteScheduler'', ''DDIMScheduler'', ''PNDMScheduler'']
   \<and> available_schedulers ((example_obj ''cpu'')\<lparr>compatible_schedulers :=
        [(''PNDMScheduler'', SchedClass ''PNDMScheduler'' 2),
         (''DDIMScheduler'', SchedClass ''DDIMScheduler'' 0)]\<rparr>) =
     Inr [''PNDMScheduler'', ''DDIMScheduler'']"
proof -
  have d: "compatible_schedulers (example_obj ''cpu'') =
      dict_by_name (compatible_schedulers_list (example_obj ''cpu''))"
    by (simp add: example_obj_def dict_by_name_def example_classes_def)
  from scheduler_list_order [of "example_obj ''cpu''"]
    scheduler_list_order [of "(example_obj ''cpu'')\<lparr>compatible_schedulers :=
        [(''PNDMScheduler'', SchedClass ''PNDMScheduler'' 2),
         (''DDIMScheduler'', SchedClass ''DDIMScheduler'' 0)]\<rparr>"]
  have "map fst (compatible_schedulers (example_obj ''cpu'')) =
     [''DDIMScheduler'', ''EulerAncestralDiscreteScheduler'', ''PNDMScheduler'']
   \<and> available_schedulers (example_obj ''cpu'') =
     Inr [''EulerAncestralDiscreteScheduler'', ''DDIMScheduler'', ''PNDMScheduler'']
   \<and> available_schedulers ((example_obj ''cpu'')\<lparr>compatible_schedulers :=
        [(''PNDMScheduler'', SchedClass ''PNDMScheduler'' 2),
         (''DDIMScheduler'', SchedClass ''DDIMScheduler'' 0)]\<rparr>) =
     Inr [''PNDMScheduler'', ''DDIMScheduler'']"
    by (auto simp: example_obj_def euler_def)
  with d show ?thesis by simp
qed

text \<open>
  C10. The page calls the pipeline or saves images only when Generate is pressed, the
  canvas has image data and the canvas holds at least one drawn object. With no drawn
  object a run of the page leaves the world as it was.
\<close>

theorem empty_mask_guard:
  "(pipeline_calls (new_events w (snd (app E ss w))) \<noteq> [] \<or> saved (new_events w (snd (app E ss w))) \<noteq> [] \<longrightarrow>
      inpainting_submit ss
      \<and> image_data (inpainting_canvas ss) \<noteq> None
      \<and> (\<exists>jd objs. json_data (inpainting_canvas ss) = Some jd
             \<and> map_of jd ''objects'' = Some objs \<and> 0 < length objs))
   \<and> ((\<exists>jd. json_data (inpainting_canvas ss) = Some jd \<and> map_of jd ''objects'' = Some []) \<longrightarrow>
        snd (app E ss w) = w)"
proof (intro conjI impI)
  assume a: "pipeline_calls (new_events w (snd (app E ss w))) \<noteq> [] \<or> saved (new_events w (snd (app E ss w))) \<noteq> []"
  then have "snd (app E ss w) \<noteq> w"
    by (auto simp: new_events_same)
  with app_effects [of E ss w] obtain opened arr where
    "submitted (inpainting_canvas ss) (convert ''RGB'' opened) (inpainting_submit ss) = Inr (Some arr)"
    by blast
  from submitted_Some [OF this]
  show "inpainting_submit ss" 
    and "image_data (inpainting_canvas ss) \<noteq> None"
    and "\<exists>jd objs. json_data (inpainting_canvas ss) = Some jd
             \<and> map_of jd ''objects'' = Some objs \<and> 0 < length objs"
    by auto
next
  assume "\<exists>jd. json_data (inpainting_canvas ss) = Some jd \<and> map_of jd ''objects'' = Some []"
  then obtain jd where "json_data (inpainting_canvas ss) = Some jd" "map_of jd ''objects'' = Some []"
    by blast
  then have "submitted (inpainting_canvas ss) pil (inpainting_submit ss) = Inr None" for pil
    by (rule submitted_empty)
  then show "snd (app E ss w) = w"
    by (simp add: app_run split: sum.splits option.splits)
qed

theorem empty_mask_guard_witness:
  "saved (new_events (example_world ''cpu'')
      (snd (app example_env (example_session 0) (example_world ''cpu'')))) \<noteq> []
   \<and> inpainting_submit (example_session 0)
   \<and> json_data (inpainting_canvas (example_session 0)) = Some [(''version'', []), (''objects'', [0])]
   \<and> json_data (inpainting_canvas ((example_session 0)
        \<lparr>inpainting_canvas := (inpainting_canvas (example_session 0))
           \<lparr>json_data := Some [(''version'', []), (''objects'', [])]\<rparr>\<rparr>)) =
       Some [(''version'', []), (''objects'', [])]
   \<and> snd (app example_env ((example_session 0)
        \<lparr>inpainting_canvas := (inpainting_canvas (example_session 0))
           \<lparr>json_data := Some [(''version'', []), (''objects'', [])]\<rparr>\<rparr>) (example_world ''cpu'')) =
       example_world ''cpu''"
proof -
  let ?empty = "(example_session 0)
        \<lparr>inpainting_canvas := (inpainting_canvas (example_session 0))
           \<lparr>json_data := Some [(''version'', []), (''objects'', [])]\<rparr>\<rparr>"
  have a: "saved (new_events (example_world ''cpu'')
      (snd (app example_env (example_session 0) (example_world ''cpu'')))) \<noteq> []"
    unfolding example_page_saved
    by (simp add: generate_image_saved example_page_scheduler example_run_euler Let_def)
      (simp add: example_env_def)
  have b: "\<exists>jd. json_data (inpainting_canvas ?empty) = Some jd \<and> map_of jd ''objects'' = Some []"
    by simp
  from empty_mask_guard [of "example_world ''cpu''" example_env "example_session 0"]
    empty_mask_guard [of "example_world ''cpu''" example_env ?empty] a b
  show ?thesis
    by (simp add: example_session_def)
qed

end
